theory Spec2Isabelle
  imports Main "HOL-Library.Multiset"
begin

section \<open>Python values\<close>

text \<open>
  A Python \<open>str\<close> is a sequence of Unicode code points; \<open>str.strip\<close> and
  \<open>str.startswith\<close> work on code points, so a string is modelled as the list of its
  code points. \<open>py\<close> embeds an ASCII literal of the source.
\<close>

type_synonym pystr = "nat list"

definition py :: "string \<Rightarrow> pystr" where
  "py s = map of_char s"

text \<open>
  The harness handles values of type \<open>Dict[str, Any]\<close> that come out of
  \<open>json.load\<close> or are built by the harness itself: \<open>None\<close>, booleans, integers,
  strings, lists and dictionaries with string keys. A dictionary is an association list
  in insertion order (keys distinct). Floating-point numbers are left out.
\<close>

datatype pyval =
    PNone
  | PBool bool
  | PInt int
  | PStr pystr
  | PList "pyval list"
  | PDict "(pystr \<times> pyval) list"

type_synonym pydict = "(pystr \<times> pyval) list"

text \<open>
  Exceptions. \<open>EngineError msg\<close> stands for any exception raised inside the
  transcription engine, \<open>msg\<close> being its \<open>str()\<close>; \<open>PrintError\<close> stands for
  any exception raised by a call of \<open>print\<close> (\<open>UnicodeEncodeError\<close>, \<open>OSError\<close>).
\<close>

datatype py_error =
    KeyError pystr
  | TypeError
  | ZeroDivisionError
  | FileNotFoundError
  | EngineError pystr
  | PrintError

text \<open>\<open>key in d\<close>, \<open>d[key]\<close> and \<open>d[key] = v\<close> on a dictionary.\<close>

definition dict_contains :: "pydict \<Rightarrow> pystr \<Rightarrow> bool" where
  "dict_contains d k = (map_of d k \<noteq> None)"

definition dict_get :: "pydict \<Rightarrow> pystr \<Rightarrow> py_error + pyval" where
  "dict_get d k = (case map_of d k of None \<Rightarrow> Inl (KeyError k) | Some v \<Rightarrow> Inr v)"

fun dict_set :: "pydict \<Rightarrow> pystr \<Rightarrow> pyval \<Rightarrow> pydict" where
  "dict_set [] k v = [(k, v)]"
| "dict_set (p # ps) k v = (if fst p = k then (k, v) # ps else p # dict_set ps k v)"

text \<open>
  \<open>x[key]\<close> with a string key on an arbitrary value: only a dictionary can be
  subscripted by a string, every other value raises \<open>TypeError\<close>.
\<close>

fun py_getitem :: "pyval \<Rightarrow> pystr \<Rightarrow> py_error + pyval" where
  "py_getitem (PDict d) k = dict_get d k"
| "py_getitem PNone k = Inl TypeError"
| "py_getitem (PBool b) k = Inl TypeError"
| "py_getitem (PInt i) k = Inl TypeError"
| "py_getitem (PStr s) k = Inl TypeError"
| "py_getitem (PList xs) k = Inl TypeError"

text \<open>
  Python's \<open>==\<close>: booleans are integers (\<open>True == 1\<close>), lists are equal when they
  have the same length and equal elements in the same order, dictionaries are equal when
  they have the same number of items and every key of the left one is bound to an equal
  value in the right one; values of different kinds are unequal.
\<close>

fun py_eq :: "pyval \<Rightarrow> pyval \<Rightarrow> bool"
  and py_eq_list :: "pyval list \<Rightarrow> pyval list \<Rightarrow> bool"
  and py_eq_items :: "(pystr \<times> pyval) list \<Rightarrow> (pystr \<times> pyval) list \<Rightarrow> bool" where
  "py_eq PNone PNone = True"
| "py_eq (PBool a) (PBool b) = (a = b)"
| "py_eq (PBool a) (PInt b) = ((if a then 1 else 0) = b)"
| "py_eq (PInt a) (PBool b) = (a = (if b then 1 else 0))"
| "py_eq (PInt a) (PInt b) = (a = b)"
| "py_eq (PStr a) (PStr b) = (a = b)"
| "py_eq (PList xs) (PList ys) = py_eq_list xs ys"
| "py_eq (PDict d) (PDict e) = (length d = length e \<and> py_eq_items d e)"
| "py_eq _ _ = False"
| "py_eq_list [] [] = True"
| "py_eq_list (x # xs) (y # ys) = (py_eq x y \<and> py_eq_list xs ys)"
| "py_eq_list _ _ = False"
| "py_eq_items [] e = True"
| "py_eq_items ((k, v) # d) e =
     (case map_of e k of None \<Rightarrow> False | Some w \<Rightarrow> py_eq v w \<and> py_eq_items d e)"

text \<open>Truth value of an object, as tested by \<open>if x:\<close>.\<close>

fun py_truthy :: "pyval \<Rightarrow> bool" where
  "py_truthy PNone = False"
| "py_truthy (PBool b) = b"
| "py_truthy (PInt i) = (i \<noteq> 0)"
| "py_truthy (PStr s) = (s \<noteq> [])"
| "py_truthy (PList xs) = (xs \<noteq> [])"
| "py_truthy (PDict d) = (d \<noteq> [])"

section \<open>Reading the corpus\<close>

text \<open>
  The characters \<open>str.strip()\<close> removes: those for which \<open>str.isspace\<close> holds.
\<close>

definition isspace :: "nat \<Rightarrow> bool" where
  "isspace c =
     ((9 \<le> c \<and> c \<le> 13) \<or> (28 \<le> c \<and> c \<le> 32) \<or> c = 133 \<or> c = 160 \<or> c = 5760
      \<or> (8192 \<le> c \<and> c \<le> 8202) \<or> c = 8232 \<or> c = 8233 \<or> c = 8239 \<or> c = 8287
      \<or> c = 12288)"

definition strip :: "pystr \<Rightarrow> pystr" where
  "strip s = rev (dropWhile isspace (rev (dropWhile isspace s)))"

definition startswith :: "pystr \<Rightarrow> pystr \<Rightarrow> bool" where
  "startswith s p = (take (length p) s = p)"

text \<open>
  \<open>read_corpus\<close>: the corpus file is the list of its raw lines, as iterating over the
  open file yields them, or \<open>None\<close> when the file does not exist.
\<close>

fun read_lines :: "pystr list \<Rightarrow> pystr list \<Rightarrow> pystr list" where
  "read_lines [] sentences = sentences"
| "read_lines (raw # rest) sentences =
     (let line = strip raw in
      if py_truthy (PStr line) \<and> \<not> startswith line (py ''#'')
      then read_lines rest (sentences @ [line])
      else read_lines rest sentences)"

definition read_corpus :: "pystr list option \<Rightarrow> py_error + pystr list" where
  "read_corpus corpus_file =
     (case corpus_file of
        None \<Rightarrow> Inl FileNotFoundError
      | Some raw_lines \<Rightarrow> Inr (read_lines raw_lines []))"

section \<open>The transcription engine and its adapter\<close>

text \<open>
  Modelled from the spec: the class \<open>Transcription\<close> of the package \<open>fonemas\<close> is not
  part of the sources at hand. The spec gives its contract: a deterministic function of
  the sentence that either fails with a message or yields three sections (phonology,
  phonetics, sampa), each with an ordered sequence of strings \<open>words\<close> and an ordered
  sequence of strings \<open>syllables\<close>. It is a parameter of the model; \<open>Inl msg\<close> is an
  exception whose \<open>str()\<close> is \<open>msg\<close>.
\<close>

record section_out =
  words :: "pystr list"
  syllables :: "pystr list"

record transcription =
  phonology :: section_out
  phonetics :: section_out
  sampa :: section_out

type_synonym engine = "pyval \<Rightarrow> pystr + transcription"

definition section_dict :: "section_out \<Rightarrow> pyval" where
  "section_dict s =
     PDict [(py ''words'', PList (map PStr (words s))),
            (py ''syllables'', PList (map PStr (syllables s)))]"

definition transcribe_sentence :: "engine \<Rightarrow> pyval \<Rightarrow> pystr + pydict" where
  "transcribe_sentence eng sentence =
     (case eng sentence of
        Inl msg \<Rightarrow> Inl msg
      | Inr t \<Rightarrow>
          Inr [(py ''input'', sentence),
               (py ''phonology'', section_dict (phonology t)),
               (py ''phonetics'', section_dict (phonetics t)),
               (py ''sampa'', section_dict (sampa t))])"

section \<open>Generating the golden dataset\<close>





definition load_golden_data :: "pydict list option \<Rightarrow> py_error + pydict list" where
  "load_golden_data golden_file =
     (case golden_file of None \<Rightarrow> Inl FileNotFoundError | Some golden_data \<Rightarrow> Inr golden_data)"

section \<open>Comparing expected and actual results\<close>

text \<open>
  The expression \<open>d[section][key]\<close>: the first subscript is on a dictionary, the
  second on whatever value the section holds.
\<close>

definition subscript2 :: "pydict \<Rightarrow> pystr \<Rightarrow> pystr \<Rightarrow> py_error + pyval" where
  "subscript2 d section key =
     (case dict_get d section of
        Inl e \<Rightarrow> Inl e
      | Inr section_val \<Rightarrow> py_getitem section_val key)"

text \<open>
  The inner loop of \<open>compare_results\<close> over the keys of one section; \<open>section_diffs\<close>
  is the dictionary built so far. Each subscript may raise; \<open>expected\<close> is read
  before \<open>actual\<close>.
\<close>

fun compare_keys ::
  "pydict \<Rightarrow> pydict \<Rightarrow> pystr \<Rightarrow> pystr list \<Rightarrow> pydict \<Rightarrow> py_error + pydict" where
  "compare_keys expected actual section [] section_diffs = Inr section_diffs"
| "compare_keys expected actual section (key # keys) section_diffs =
     (case subscript2 expected section key of
        Inl e \<Rightarrow> Inl e
      | Inr expected_val \<Rightarrow>
     (case subscript2 actual section key of
        Inl e \<Rightarrow> Inl e
      | Inr actual_val \<Rightarrow>
          if \<not> py_eq expected_val actual_val
          then compare_keys expected actual section keys
                 (dict_set section_diffs key
                    (PDict [(py ''expected'', expected_val), (py ''actual'', actual_val)]))
          else compare_keys expected actual section keys section_diffs))"

text \<open>The outer loop over the sections; \<open>differences\<close> is the dictionary built so far.\<close>

fun compare_sections ::
  "pydict \<Rightarrow> pydict \<Rightarrow> pystr list \<Rightarrow> pydict \<Rightarrow> py_error + pydict" where
  "compare_sections expected actual [] differences = Inr differences"
| "compare_sections expected actual (section # sections) differences =
     (if \<not> dict_contains actual section
      then compare_sections expected actual sections
             (dict_set differences section
                (PDict [(py ''error'', PStr (py ''Section missing in actual output''))]))
      else
        (case compare_keys expected actual section [py ''words'', py ''syllables''] [] of
           Inl e \<Rightarrow> Inl e
         | Inr section_diffs \<Rightarrow>
             if py_truthy (PDict section_diffs)
             then compare_sections expected actual sections
                    (dict_set differences section (PDict section_diffs))
             else compare_sections expected actual sections differences))"

definition compare_results :: "pydict \<Rightarrow> pydict \<Rightarrow> py_error + pyval" where
  "compare_results expected actual =
     (case compare_sections expected actual
             [py ''phonology'', py ''phonetics'', py ''sampa''] [] of
        Inl e \<Rightarrow> Inl e
      | Inr differences \<Rightarrow> Inr (PDict differences))"

section \<open>Running the tests\<close>

text \<open>
  One record of the list \<open>failures\<close>: index, sentence and either the differences or
  the exception caught (the source stores the exception's \<open>str()\<close>).
\<close>

datatype failure =
    is_Mismatch: Mismatch (failure_index: int) (failure_sentence: pyval)
      (failure_differences: pyval)
  | is_Errored: Errored (failure_index: int) (failure_sentence: pyval)
      (failure_error: py_error)

record run_summary =
  total :: int
  passed :: int
  failed :: int
  errors :: int
  failures :: "failure list"

text \<open>
  The body of the \<open>try\<close> block up to the comparison: transcribe, then compare. Any
  exception raised there is caught by the \<open>except Exception\<close> clause of the caller.
\<close>

definition try_compare :: "engine \<Rightarrow> pydict \<Rightarrow> pyval \<Rightarrow> py_error + pyval" where
  "try_compare eng expected sentence =
     (case transcribe_sentence eng sentence of
        Inl msg \<Rightarrow> Inl (EngineError msg)
      | Inr actual \<Rightarrow> compare_results expected actual)"

text \<open>
  The console. Under \<open>verbose\<close> the loop of \<open>run_tests\<close> prints, and a call of
  \<open>print\<close> may raise (the encoding of the console cannot render the text, the pipe is
  closed). The calls the loop makes for the entry with index \<open>i\<close> are: the \<open>SKIP\<close>
  line, the \<open>FAIL\<close> line, the call of \<open>_print_differences\<close>, the \<open>PASS\<close> line,
  and the two lines of the exception handler. A console tells for each of them whether
  it returns; within one run no call occurs twice. The text itself is not modelled.
\<close>

datatype print_call =
    SkipLine int pyval
  | FailLine int pyval
  | is_DiffLines: DiffLines int pyval
  | is_PassLine: PassLine int pyval
  | ErrorLine int pyval
  | ExceptionLine int py_error

type_synonym console = "print_call \<Rightarrow> bool"

text \<open>
  \<open>if verbose: print(...)\<close> for a sequence of calls: true when control gets past them,
  false when one of them raises.
\<close>

definition prints :: "console \<Rightarrow> bool \<Rightarrow> print_call list \<Rightarrow> bool" where
  "prints con verbose lines = (if verbose then list_all con lines else True)"

text \<open>
  The \<open>try\<close> block for one entry. \<open>Inr\<close> is its normal end; \<open>Inl\<close> is an exception
  together with \<open>results\<close> as they are when it is raised: the counter \<open>failed\<close> or
  \<open>passed\<close> is updated before the lines are printed.
\<close>

definition try_entry ::
  "engine \<Rightarrow> console \<Rightarrow> bool \<Rightarrow> int \<Rightarrow> pydict \<Rightarrow> pyval \<Rightarrow> run_summary
     \<Rightarrow> py_error \<times> run_summary + run_summary" where
  "try_entry eng con verbose i expected sentence results =
     (case try_compare eng expected sentence of
        Inl e \<Rightarrow> Inl (e, results)
      | Inr differences \<Rightarrow>
          if py_truthy differences
          then
            (let results1 =
                   results\<lparr>failed := failed results + 1,
                           failures := failures results @ [Mismatch i sentence differences]\<rparr>
             in if prints con verbose [FailLine i sentence, DiffLines i differences]
                then Inr results1 else Inl (PrintError, results1))
          else
            (let results1 = results\<lparr>passed := passed results + 1\<rparr>
             in if prints con verbose [PassLine i sentence]
                then Inr results1 else Inl (PrintError, results1)))"

text \<open>
  The clause \<open>except Exception as e\<close>: it counts an error and records it, then prints
  two lines; an exception raised by these is caught by nobody.
\<close>

definition except_handler ::
  "console \<Rightarrow> bool \<Rightarrow> int \<Rightarrow> pyval \<Rightarrow> py_error \<Rightarrow> run_summary \<Rightarrow> py_error + run_summary" where
  "except_handler con verbose i sentence e results =
     (if prints con verbose [ErrorLine i sentence, ExceptionLine i e]
      then Inr (results\<lparr>errors := errors results + 1,
                        failures := failures results @ [Errored i sentence e]\<rparr>)
      else Inl PrintError)"

text \<open>
  The loop of \<open>run_tests\<close>. The state is the dictionary \<open>results\<close> together with the
  list of the sentences handed to the engine so far, which records the calls the loop
  makes. The subscript \<open>expected["input"]\<close> and the \<open>SKIP\<close> line stand outside the
  \<open>try\<close> block, so an exception there ends the run.
\<close>

fun run_loop ::
  "engine \<Rightarrow> console \<Rightarrow> bool \<Rightarrow> int \<Rightarrow> pydict list \<Rightarrow> run_summary \<times> pyval list
     \<Rightarrow> py_error + run_summary \<times> pyval list" where
  "run_loop eng con verbose i [] st = Inr st"
| "run_loop eng con verbose i (expected # rest) (results, calls) =
     (case dict_get expected (py ''input'') of
        Inl e \<Rightarrow> Inl e
      | Inr sentence \<Rightarrow>
          if dict_contains expected (py ''error'')
          then
            (if prints con verbose [SkipLine i sentence]
             then run_loop eng con verbose (i + 1) rest
                    (results\<lparr>errors := errors results + 1\<rparr>, calls)
             else Inl PrintError)
          else
            (case try_entry eng con verbose i expected sentence results of
               Inr results1 \<Rightarrow>
                 run_loop eng con verbose (i + 1) rest (results1, calls @ [sentence])
             | Inl (e, results1) \<Rightarrow>
                 (case except_handler con verbose i sentence e results1 of
                    Inl e2 \<Rightarrow> Inl e2
                  | Inr results2 \<Rightarrow>
                      run_loop eng con verbose (i + 1) rest (results2, calls @ [sentence]))))"

text \<open>
  \<open>run_tests\<close>. The line printed before the loop is not modelled.
\<close>

definition run_tests ::
  "engine \<Rightarrow> console \<Rightarrow> bool \<Rightarrow> pydict list option
     \<Rightarrow> py_error + run_summary \<times> pyval list" where
  "run_tests eng con verbose golden_file =
     (case load_golden_data golden_file of
        Inl e \<Rightarrow> Inl e
      | Inr golden_data \<Rightarrow>
          run_loop eng con verbose 1 golden_data
            (\<lparr>total = int (length golden_data), passed = 0, failed = 0, errors = 0,
              failures = []\<rparr>, []))"

text \<open>
  \<open>print_test_summary\<close>: the percentage \<open>passed / total * 100\<close> is computed for the
  third line of the summary, before the exit code; the division raises when \<open>total\<close>
  is zero. The text printed is not modelled.
\<close>

definition print_test_summary :: "run_summary \<Rightarrow> py_error + int" where
  "print_test_summary results =
     (if total results = 0 then Inl ZeroDivisionError
      else Inr (if failed results = 0 \<and> errors results = 0 then 0 else 1))"

text \<open>
  The \<open>test\<close> branch of \<open>main\<close>, \<open>verbose\<close> being read from the command line: the
  process ends with \<open>sys.exit(exit_code)\<close>, or with an exception nobody catches.
\<close>

datatype outcome = Exit int | Uncaught py_error

definition main_test :: "engine \<Rightarrow> console \<Rightarrow> bool \<Rightarrow> pydict list option \<Rightarrow> outcome" where
  "main_test eng con verbose golden_file =
     (case run_tests eng con verbose golden_file of
        Inl e \<Rightarrow> Uncaught e
      | Inr (results, calls) \<Rightarrow>
          (case print_test_summary results of
             Inl e \<Rightarrow> Uncaught e
           | Inr exit_code \<Rightarrow> Exit exit_code))"

section \<open>Basic facts\<close>

lemma py_inj [simp]: "py a = py b \<longleftrightarrow> a = b"
  by (simp add: py_def inj_of_char)

lemma split_trailing: "t = rev (dropWhile P (rev t)) @ rev (takeWhile P (rev t))"
  by (metis rev_append rev_rev_ident takeWhile_dropWhile_id)

lemma strip_decompose:
  "\<exists>pre post. raw = pre @ strip raw @ post \<and> list_all isspace pre \<and> list_all isspace post"
proof -
  let ?t = "dropWhile isspace raw"
  have t: "?t = strip raw @ rev (takeWhile isspace (rev ?t))"
    unfolding strip_def by (rule split_trailing)
  have "raw = takeWhile isspace raw @ ?t"
    by simp
  with t have "raw = takeWhile isspace raw @ strip raw @ rev (takeWhile isspace (rev ?t))"
    by simp
  moreover have "list_all isspace (takeWhile isspace raw)"
    by (simp add: list_all_iff) (meson set_takeWhileD)
  moreover have "list_all isspace (rev (takeWhile isspace (rev ?t)))"
    by (simp add: list_all_iff) (meson set_takeWhileD)
  ultimately show ?thesis by blast
qed

lemma strip_ends:
  assumes "strip raw \<noteq> []"
  shows "\<not> isspace (hd (strip raw)) \<and> \<not> isspace (last (strip raw))"
proof -
  let ?t = "dropWhile isspace raw"
  let ?u = "dropWhile isspace (rev ?t)"
  have u: "?u \<noteq> []" using assms by (simp add: strip_def)
  then have l: "\<not> isspace (hd ?u)" by (rule hd_dropWhile)
  have last: "last (strip raw) = hd ?u"
    using u by (simp add: strip_def last_rev)
  have "?t \<noteq> []"
  proof
    assume "?t = []"
    then have "?u = []" by (simp only: rev.simps dropWhile.simps)
    with u show False by blast
  qed
  then have h: "\<not> isspace (hd ?t)" by (rule hd_dropWhile)
  have "?t = strip raw @ rev (takeWhile isspace (rev ?t))"
    unfolding strip_def by (rule split_trailing)
  then have "hd ?t = hd (strip raw @ rev (takeWhile isspace (rev ?t)))" by simp
  then have "hd ?t = hd (strip raw)" using assms by simp
  with h l last show ?thesis by simp
qed

lemma read_lines_filter:
  "read_lines raw_lines sentences =
     sentences @ filter (\<lambda>l. l \<noteq> [] \<and> \<not> startswith l (py ''#'')) (map strip raw_lines)"
  by (induction raw_lines arbitrary: sentences) (simp_all add: Let_def)

lemma startswith_hash: "startswith l (py ''#'') \<longleftrightarrow> (\<exists>cs. l = of_char CHR ''#'' # cs)"
  by (cases l) (simp_all add: startswith_def py_def)

lemma run_tests_empty:
  "run_tests eng con verbose (Some []) =
     Inr (\<lparr>total = 0, passed = 0, failed = 0, errors = 0, failures = []\<rparr>, [])"
  by (simp add: run_tests_def load_golden_data_def)

section \<open>The claims\<close>

text \<open>
  C7. \<open>read_corpus\<close> returns the trimmed lines that are not empty and do not start
  with \<open>#\<close>, in file order and without removing duplicates. Trimmed means: the raw
  line is the kept line between a run of whitespace on each side, and a kept line
  neither starts nor ends with whitespace. The corpus of the four lines
  \<open>Hola.\<close>, \<open># comment\<close>, the empty line and \<open>Adios\<close> (with an accented o, code
  point 243) yields the first and the last of them.
\<close>

theorem read_corpus_keeps_trimmed_lines:
  "read_corpus (Some raw_lines) =
     Inr (filter (\<lambda>l. l \<noteq> [] \<and> (\<forall>cs. l \<noteq> of_char CHR ''#'' # cs)) (map strip raw_lines))
   \<and> (\<forall>raw \<in> set raw_lines.
        (\<exists>pre post. raw = pre @ strip raw @ post \<and> list_all isspace pre \<and> list_all isspace post)
        \<and> (strip raw \<noteq> [] \<longrightarrow> \<not> isspace (hd (strip raw)) \<and> \<not> isspace (last (strip raw))))
   \<and> read_corpus (Some [py ''Hola.'', py ''# comment'', py '''', py ''Adi'' @ [243] @ py ''s''])
       = Inr [py ''Hola.'', py ''Adi'' @ [243] @ py ''s'']"
proof (intro conjI ballI impI)
  show "read_corpus (Some raw_lines) =
     Inr (filter (\<lambda>l. l \<noteq> [] \<and> (\<forall>cs. l \<noteq> of_char CHR ''#'' # cs)) (map strip raw_lines))"
    by (simp add: read_corpus_def read_lines_filter startswith_hash)
next
  fix raw
  show "\<exists>pre post. raw = pre @ strip raw @ post \<and> list_all isspace pre \<and> list_all isspace post"
    by (rule strip_decompose)
next
  fix raw
  assume "strip raw \<noteq> []"
  then show "\<not> isspace (hd (strip raw))" and "\<not> isspace (last (strip raw))"
    using strip_ends by simp_all
next
  show "read_corpus (Some [py ''Hola.'', py ''# comment'', py '''', py ''Adi'' @ [243] @ py ''s''])
       = Inr [py ''Hola.'', py ''Adi'' @ [243] @ py ''s'']"
    by (simp add: read_corpus_def py_def strip_def isspace_def startswith_def)
qed

theorem read_corpus_keeps_trimmed_lines_witness:
  "read_corpus
     (Some [py ''  uno '' @ [10], py ''# dos'' @ [10], [9, 10], py ''uno'' @ [10],
            [160] @ py ''#tres''])
     = Inr [py ''uno'', py ''uno'']"
  using read_corpus_keeps_trimmed_lines
    [of "[py ''  uno '' @ [10], py ''# dos'' @ [10], [9, 10], py ''uno'' @ [10],
          [160] @ py ''#tres'']"]
  by (simp add: py_def strip_def isspace_def)

text \<open>
  C8. On an empty golden dataset the summary has \<open>total = 0\<close> (and no failure and no
  error); \<open>print_test_summary\<close> divides by \<open>total\<close> and raises
  \<open>ZeroDivisionError\<close>, whatever the other counts, and the \<open>test\<close> command ends
  with that exception uncaught, not with exit status 0.
\<close>

theorem empty_dataset_raises_zero_division:
  "run_tests eng con verbose (Some []) =
     Inr (\<lparr>total = 0, passed = 0, failed = 0, errors = 0, failures = []\<rparr>, [])
   \<and> (\<forall>results. total results = 0 \<longrightarrow> print_test_summary results = Inl ZeroDivisionError)
   \<and> main_test eng con verbose (Some []) = Uncaught ZeroDivisionError
   \<and> main_test eng con verbose (Some []) \<noteq> Exit 0"
  by (simp add: run_tests_empty main_test_def print_test_summary_def)

theorem empty_dataset_raises_zero_division_witness:
  "print_test_summary \<lparr>total = 0, passed = 0, failed = 0, errors = 0, failures = []\<rparr>
     = Inl ZeroDivisionError
   \<and> main_test (\<lambda>s. Inl (py ''unused'')) (\<lambda>l. False) True (Some [])
       = Uncaught ZeroDivisionError"
  using empty_dataset_raises_zero_division [of "\<lambda>s. Inl (py ''unused'')" "\<lambda>l. False" True]
  by simp

text \<open>
  C2. The exit status is meant to be 0 exactly when \<open>failed = 0\<close> and \<open>errors = 0\<close>.
  On the empty golden dataset the run produces a summary with \<open>failed = 0\<close> and
  \<open>errors = 0\<close>, yet the process does not exit with status 0: the percentage line of
  the summary raises first.
\<close>

theorem exit_status_empty_dataset:
  "\<exists>results calls.
     run_tests eng con verbose (Some []) = Inr (results, calls)
     \<and> failed results = 0 \<and> errors results = 0
     \<and> main_test eng con verbose (Some []) \<noteq> Exit 0
     \<and> main_test eng con verbose (Some []) = Uncaught ZeroDivisionError"
  by (simp add: run_tests_empty main_test_def print_test_summary_def)

section \<open>Facts about the comparison\<close>

lemma subscript2_contains: "subscript2 d s k = Inr v \<Longrightarrow> dict_contains d s"
  by (auto simp: subscript2_def dict_get_def dict_contains_def split: option.splits)

lemma py_eq_strs: "py_eq_list (map PStr xs) (map PStr ys) \<longleftrightarrow> xs = ys"
proof (induction xs arbitrary: ys)
  case Nil
  then show ?case by (cases ys) simp_all
next
  case (Cons x xs)
  then show ?case by (cases ys) auto
qed

lemma compare_keys_both:
  assumes "subscript2 expected s (py ''words'') = Inr ew"
    and "subscript2 actual s (py ''words'') = Inr aw"
    and "subscript2 expected s (py ''syllables'') = Inr es"
    and "subscript2 actual s (py ''syllables'') = Inr as"
  shows "compare_keys expected actual s [py ''words'', py ''syllables''] [] =
     Inr ((if py_eq ew aw then [] else [(py ''words'', PDict [(py ''expected'', ew), (py ''actual'', aw)])])
        @ (if py_eq es as then [] else [(py ''syllables'', PDict [(py ''expected'', es), (py ''actual'', as)])]))"
  using assms by simp

lemma compare_keys_agree:
  assumes "\<forall>k \<in> set keys. subscript2 a1 s k = subscript2 a2 s k"
  shows "compare_keys expected a1 s keys section_diffs
       = compare_keys expected a2 s keys section_diffs"
  using assms
  by (induction keys arbitrary: section_diffs) (simp_all split: sum.splits)

lemma compare_sections_agree:
  assumes "\<forall>s \<in> set sections. dict_contains a1 s = dict_contains a2 s
             \<and> (\<forall>k \<in> set [py ''words'', py ''syllables'']. subscript2 a1 s k = subscript2 a2 s k)"
  shows "compare_sections expected a1 sections differences
       = compare_sections expected a2 sections differences"
  using assms
proof (induction sections arbitrary: differences)
  case Nil
  then show ?case by simp
next
  case (Cons s sections)
  have keys: "compare_keys expected a1 s [py ''words'', py ''syllables''] []
      = compare_keys expected a2 s [py ''words'', py ''syllables''] []"
    using Cons.prems by (intro compare_keys_agree) simp
  have "dict_contains a1 s = dict_contains a2 s" using Cons.prems by simp
  moreover have "\<And>d. compare_sections expected a1 sections d = compare_sections expected a2 sections d"
    using Cons by simp
  ultimately show ?case
    by (simp only: compare_sections.simps keys)
qed

lemma compare_sections_equal:
  assumes "\<forall>s \<in> set sections. \<forall>k \<in> set [py ''words'', py ''syllables''].
             \<exists>ev av. subscript2 expected s k = Inr ev \<and> subscript2 actual s k = Inr av \<and> py_eq ev av"
  shows "compare_sections expected actual sections differences = Inr differences"
  using assms
proof (induction sections arbitrary: differences)
  case Nil
  then show ?case by simp
next
  case (Cons s sections)
  from Cons.prems obtain ew aw es as where
    w: "subscript2 expected s (py ''words'') = Inr ew" "subscript2 actual s (py ''words'') = Inr aw" "py_eq ew aw"
    and sy: "subscript2 expected s (py ''syllables'') = Inr es" "subscript2 actual s (py ''syllables'') = Inr as" "py_eq es as"
    by auto
  have "compare_keys expected actual s [py ''words'', py ''syllables''] [] = Inr []"
    using w sy by (simp add: compare_keys_both)
  moreover have "dict_contains actual s" using w(2) by (rule subscript2_contains)
  moreover have "\<And>d. compare_sections expected actual sections d = Inr d"
    using Cons by simp
  ultimately show ?case by simp
qed

lemma wrap_dict_cases:
  "(case x of Inl e \<Rightarrow> Inl e | Inr d \<Rightarrow> Inr (PDict d)) = Inr v
     \<longleftrightarrow> (\<exists>d. x = Inr d \<and> v = PDict d)"
  "(case x of Inl e \<Rightarrow> Inl e | Inr d \<Rightarrow> Inr (PDict d)) = Inl err \<longleftrightarrow> x = Inl err"
  by (cases x; auto)+

lemma compare_results_Inr:
  "compare_results expected actual = Inr v
     \<longleftrightarrow> (\<exists>d. compare_sections expected actual
                 [py ''phonology'', py ''phonetics'', py ''sampa''] [] = Inr d \<and> v = PDict d)"
  unfolding compare_results_def by (rule wrap_dict_cases)

lemma compare_results_Inl:
  "compare_results expected actual = Inl err
     \<longleftrightarrow> compare_sections expected actual
           [py ''phonology'', py ''phonetics'', py ''sampa''] [] = Inl err"
  unfolding compare_results_def by (rule wrap_dict_cases)

lemma compare_results_never_none: "compare_results expected actual \<noteq> Inr PNone"
proof
  assume "compare_results expected actual = Inr PNone"
  then obtain d where "PNone = PDict d"
    unfolding compare_results_Inr by blast
  then show False by simp
qed

lemma map_of_dict_set: "map_of (dict_set d k v) = (map_of d)(k \<mapsto> v)"
  by (induction d) (auto simp: fun_eq_iff)

lemma dict_set_nonempty: "dict_set d k v \<noteq> []"
  by (cases d) simp_all

lemma compare_sections_lookup:
  assumes "\<forall>t \<in> set sections. dict_contains actual t
             \<and> compare_keys expected actual t [py ''words'', py ''syllables''] [] = Inr (sd t)"
  shows "\<exists>d. compare_sections expected actual sections differences = Inr d
           \<and> (d = [] \<longleftrightarrow> differences = [] \<and> (\<forall>t \<in> set sections. sd t = []))
           \<and> (\<forall>t. map_of d t = (if t \<in> set sections \<and> sd t \<noteq> [] then Some (PDict (sd t))
                                 else map_of differences t))"
  using assms
proof (induction sections arbitrary: differences)
  case Nil
  then show ?case by simp
next
  case (Cons s sections)
  have s: "dict_contains actual s"
    "compare_keys expected actual s [py ''words'', py ''syllables''] [] = Inr (sd s)"
    using Cons.prems by simp_all
  have rest: "\<forall>t \<in> set sections. dict_contains actual t
             \<and> compare_keys expected actual t [py ''words'', py ''syllables''] [] = Inr (sd t)"
    using Cons.prems by simp
  show ?case
  proof (cases "sd s = []")
    case True
    from Cons.IH [OF rest, of differences] obtain d where
      d: "compare_sections expected actual sections differences = Inr d"
        "d = [] \<longleftrightarrow> differences = [] \<and> (\<forall>t \<in> set sections. sd t = [])"
        "\<forall>t. map_of d t = (if t \<in> set sections \<and> sd t \<noteq> [] then Some (PDict (sd t))
                                 else map_of differences t)"
      by blast
    have "compare_sections expected actual (s # sections) differences = Inr d"
      using s True d(1) by simp
    moreover have "d = [] \<longleftrightarrow> differences = [] \<and> (\<forall>t \<in> set (s # sections). sd t = [])"
      using d(2) True by simp
    moreover have "\<forall>t. map_of d t = (if t \<in> set (s # sections) \<and> sd t \<noteq> [] then Some (PDict (sd t))
                                 else map_of differences t)"
      using d(3) True by auto
    ultimately show ?thesis by blast
  next
    case False
    let ?d1 = "dict_set differences s (PDict (sd s))"
    from Cons.IH [OF rest, of ?d1] obtain d where
      d: "compare_sections expected actual sections ?d1 = Inr d"
        "d = [] \<longleftrightarrow> ?d1 = [] \<and> (\<forall>t \<in> set sections. sd t = [])"
        "\<forall>t. map_of d t = (if t \<in> set sections \<and> sd t \<noteq> [] then Some (PDict (sd t))
                                 else map_of ?d1 t)"
      by blast
    have "compare_sections expected actual (s # sections) differences = Inr d"
      using s False d(1) by simp
    moreover have "d = [] \<longleftrightarrow> differences = [] \<and> (\<forall>t \<in> set (s # sections). sd t = [])"
      using d(2) False by (simp add: dict_set_nonempty)
    moreover have "\<forall>t. map_of d t = (if t \<in> set (s # sections) \<and> sd t \<noteq> [] then Some (PDict (sd t))
                                 else map_of differences t)"
      using d(3) False by (auto simp: map_of_dict_set)
    ultimately show ?thesis by blast
  qed
qed

lemma compare_results_equal:
  assumes "\<forall>s \<in> set [py ''phonology'', py ''phonetics'', py ''sampa''].
           \<forall>k \<in> set [py ''words'', py ''syllables''].
             \<exists>ev av. subscript2 expected s k = Inr ev \<and> subscript2 actual s k = Inr av
                \<and> py_eq ev av"
  shows "compare_results expected actual = Inr (PDict [])"
  unfolding compare_results_Inr
  using compare_sections_equal [OF assms, of "[]"] by blast

lemma run_loop_single:
  assumes "dict_get expected (py ''input'') = Inr sentence"
    and "\<not> dict_contains expected (py ''error'')"
    and "try_compare eng expected sentence = Inr differences"
    and "prints con verbose
           (if py_truthy differences
            then [FailLine i sentence, DiffLines i differences]
            else [PassLine i sentence])"
  shows "run_loop eng con verbose i [expected] (results, calls) =
       Inr (if py_truthy differences
            then results\<lparr>failed := failed results + 1,
                         failures := failures results @ [Mismatch i sentence differences]\<rparr>
            else results\<lparr>passed := passed results + 1\<rparr>,
            calls @ [sentence])"
  using assms by (simp add: try_entry_def split: if_splits)

section \<open>The claims about \<open>compare_results\<close>\<close>

text \<open>
  C1 (amended). \<open>compare_results\<close> never returns an absent value: what it returns is
  a dictionary. When the \<open>words\<close> and \<open>syllables\<close> values of the three sections
  are equal on both sides, the result is the empty dictionary, which is false as a
  condition; \<open>run_tests\<close> counts an entry as passed exactly when the dictionary the
  comparison returned is empty, and as failed otherwise (the lines it prints for the
  entry, if any, being printed).
\<close>

theorem compare_results_equal_gives_empty_mapping:
  "compare_results expected actual \<noteq> Inr PNone
   \<and> ((\<forall>s \<in> set [py ''phonology'', py ''phonetics'', py ''sampa''].
        \<forall>k \<in> set [py ''words'', py ''syllables''].
          \<exists>ev av. subscript2 expected s k = Inr ev \<and> subscript2 actual s k = Inr av
             \<and> py_eq ev av)
      \<longrightarrow> compare_results expected actual = Inr (PDict []) \<and> \<not> py_truthy (PDict []))
   \<and> (dict_get expected (py ''input'') = Inr sentence
        \<and> \<not> dict_contains expected (py ''error'')
        \<and> try_compare eng expected sentence = Inr differences
        \<and> prints con verbose
             (if differences = PDict []
              then [PassLine i sentence]
              else [FailLine i sentence, DiffLines i differences])
      \<longrightarrow> run_loop eng con verbose i [expected] (results, calls) =
            Inr (if differences = PDict []
                 then results\<lparr>passed := passed results + 1\<rparr>
                 else results\<lparr>failed := failed results + 1,
                         failures := failures results @ [Mismatch i sentence differences]\<rparr>,
                 calls @ [sentence]))"
proof (intro conjI impI; (elim conjE)?)
  show "compare_results expected actual \<noteq> Inr PNone"
    by (rule compare_results_never_none)
next
  assume "\<forall>s \<in> set [py ''phonology'', py ''phonetics'', py ''sampa''].
        \<forall>k \<in> set [py ''words'', py ''syllables''].
          \<exists>ev av. subscript2 expected s k = Inr ev \<and> subscript2 actual s k = Inr av
             \<and> py_eq ev av"
  then show "compare_results expected actual = Inr (PDict [])"
    by (rule compare_results_equal)
next
  show "\<not> py_truthy (PDict [])" by simp
next
  assume a: "dict_get expected (py ''input'') = Inr sentence"
    "\<not> dict_contains expected (py ''error'')"
    "try_compare eng expected sentence = Inr differences"
    and p: "prints con verbose
             (if differences = PDict []
              then [PassLine i sentence]
              else [FailLine i sentence, DiffLines i differences])"
  from a obtain actual where "compare_results expected actual = Inr differences"
    by (auto simp: try_compare_def split: sum.splits)
  then obtain d where d: "differences = PDict d"
    unfolding compare_results_Inr by blast
  have p': "prints con verbose
           (if py_truthy differences
            then [FailLine i sentence, DiffLines i differences]
            else [PassLine i sentence])"
    using p unfolding d by (cases "d = []") simp_all
  show "run_loop eng con verbose i [expected] (results, calls) =
            Inr (if differences = PDict []
                 then results\<lparr>passed := passed results + 1\<rparr>
                 else results\<lparr>failed := failed results + 1,
                         failures := failures results @ [Mismatch i sentence differences]\<rparr>,
                 calls @ [sentence])"
    unfolding run_loop_single [OF a p'] by (simp add: d)
qed

theorem compare_results_equal_gives_empty_mapping_witness:
  "compare_results
     [(py ''input'', PStr (py ''Hola.'')),
      (py ''phonology'', section_dict \<lparr>words = [py ''ola''], syllables = [py ''o'', py ''la'']\<rparr>),
      (py ''phonetics'', section_dict \<lparr>words = [py ''ol'', py ''a''], syllables = []\<rparr>),
      (py ''sampa'', section_dict \<lparr>words = [], syllables = [py ''o'']\<rparr>)]
     [(py ''phonology'', section_dict \<lparr>words = [py ''ola''], syllables = [py ''o'', py ''la'']\<rparr>),
      (py ''phonetics'', section_dict \<lparr>words = [py ''ol'', py ''a''], syllables = []\<rparr>),
      (py ''sampa'', section_dict \<lparr>words = [], syllables = [py ''o'']\<rparr>)]
     = Inr (PDict [])
   \<and> run_loop
       (\<lambda>s. Inr \<lparr>phonology = \<lparr>words = [py ''ola''], syllables = [py ''o'', py ''la'']\<rparr>,
                  phonetics = \<lparr>words = [py ''ol'', py ''a''], syllables = []\<rparr>,
                  sampa = \<lparr>words = [], syllables = [py ''o'']\<rparr>\<rparr>)
       (\<lambda>l. True) True 1
       [[(py ''input'', PStr (py ''Hola.'')),
         (py ''phonology'', section_dict \<lparr>words = [py ''ola''], syllables = [py ''o'', py ''la'']\<rparr>),
         (py ''phonetics'', section_dict \<lparr>words = [py ''ol'', py ''a''], syllables = []\<rparr>),
         (py ''sampa'', section_dict \<lparr>words = [], syllables = [py ''o'']\<rparr>)]]
       (\<lparr>total = 1, passed = 0, failed = 0, errors = 0, failures = []\<rparr>, [])
     = Inr (\<lparr>total = 1, passed = 1, failed = 0, errors = 0, failures = []\<rparr>, [PStr (py ''Hola.'')])"
  using compare_results_equal_gives_empty_mapping
    [where expected = "[(py ''input'', PStr (py ''Hola.'')),
      (py ''phonology'', section_dict \<lparr>words = [py ''ola''], syllables = [py ''o'', py ''la'']\<rparr>),
      (py ''phonetics'', section_dict \<lparr>words = [py ''ol'', py ''a''], syllables = []\<rparr>),
      (py ''sampa'', section_dict \<lparr>words = [], syllables = [py ''o'']\<rparr>)]"
     and actual = "[(py ''phonology'', section_dict \<lparr>words = [py ''ola''], syllables = [py ''o'', py ''la'']\<rparr>),
      (py ''phonetics'', section_dict \<lparr>words = [py ''ol'', py ''a''], syllables = []\<rparr>),
      (py ''sampa'', section_dict \<lparr>words = [], syllables = [py ''o'']\<rparr>)]"
     and sentence = "PStr (py ''Hola.'')"
     and eng = "\<lambda>s. Inr \<lparr>phonology = \<lparr>words = [py ''ola''], syllables = [py ''o'', py ''la'']\<rparr>,
                  phonetics = \<lparr>words = [py ''ol'', py ''a''], syllables = []\<rparr>,
                  sampa = \<lparr>words = [], syllables = [py ''o'']\<rparr>\<rparr>"
     and differences = "PDict []" and con = "\<lambda>l. True" and verbose = True and i = 1
     and results = "\<lparr>total = 1, passed = 0, failed = 0, errors = 0, failures = []\<rparr>"
     and calls = "[]"]
  by (simp add: section_dict_def subscript2_def dict_get_def dict_contains_def try_compare_def
      transcribe_sentence_def compare_results_def try_entry_def prints_def)

text \<open>
  C1 as stated fails: comparing the entry for \<open>Hola.\<close> with itself returns the
  empty dictionary, not \<open>None\<close>.
\<close>

theorem compare_results_no_difference_counterexample:
  "compare_results
     [(py ''input'', PStr (py ''Hola.'')),
      (py ''phonology'', section_dict \<lparr>words = [py ''ola''], syllables = [py ''o'', py ''la'']\<rparr>),
      (py ''phonetics'', section_dict \<lparr>words = [py ''ola''], syllables = [py ''o'', py ''la'']\<rparr>),
      (py ''sampa'', section_dict \<lparr>words = [py ''ola''], syllables = [py ''o'', py ''la'']\<rparr>)]
     [(py ''input'', PStr (py ''Hola.'')),
      (py ''phonology'', section_dict \<lparr>words = [py ''ola''], syllables = [py ''o'', py ''la'']\<rparr>),
      (py ''phonetics'', section_dict \<lparr>words = [py ''ola''], syllables = [py ''o'', py ''la'']\<rparr>),
      (py ''sampa'', section_dict \<lparr>words = [py ''ola''], syllables = [py ''o'', py ''la'']\<rparr>)]
     = Inr (PDict [])
   \<and> Inr (PDict []) \<noteq> (Inr PNone :: py_error + pyval)"
  by (simp add: compare_results_def section_dict_def subscript2_def dict_get_def dict_contains_def)

text \<open>
  C4. When expected and actual differ only in the \<open>syllables\<close> value of one section
  \<open>s\<close>, the result holds exactly one entry, for \<open>s\<close>, with the single field
  \<open>syllables\<close> and its expected and actual values. When the \<open>words\<close> of a section
  are sequences of strings and the actual one is a reordering of the expected one (same
  elements, another order), the result is not empty and records the two sequences under
  that section and field.
\<close>

theorem compare_results_reports_single_difference:
  "(s \<in> set [py ''phonology'', py ''phonetics'', py ''sampa'']
      \<and> (\<forall>t \<in> set [py ''phonology'', py ''phonetics'', py ''sampa''].
           \<forall>k \<in> set [py ''words'', py ''syllables''].
             \<exists>ev av. subscript2 expected t k = Inr ev \<and> subscript2 actual t k = Inr av
                \<and> (py_eq ev av \<longleftrightarrow> \<not> (t = s \<and> k = py ''syllables'')))
    \<longrightarrow> (\<exists>ev av. subscript2 expected s (py ''syllables'') = Inr ev
           \<and> subscript2 actual s (py ''syllables'') = Inr av
           \<and> compare_results expected actual =
               Inr (PDict [(s, PDict [(py ''syllables'',
                                       PDict [(py ''expected'', ev), (py ''actual'', av)])])])))
   \<and> (s \<in> set [py ''phonology'', py ''phonetics'', py ''sampa'']
      \<and> (\<forall>t \<in> set [py ''phonology'', py ''phonetics'', py ''sampa''].
           \<forall>k \<in> set [py ''words'', py ''syllables''].
             \<exists>ev av. subscript2 expected t k = Inr ev \<and> subscript2 actual t k = Inr av)
      \<and> subscript2 expected s (py ''words'') = Inr (PList (map PStr xs))
      \<and> subscript2 actual s (py ''words'') = Inr (PList (map PStr ys))
      \<and> mset ys = mset xs \<and> ys \<noteq> xs
    \<longrightarrow> (\<exists>d sd. compare_results expected actual = Inr (PDict d) \<and> py_truthy (PDict d)
           \<and> map_of d s = Some (PDict sd)
           \<and> map_of sd (py ''words'') =
               Some (PDict [(py ''expected'', PList (map PStr xs)),
                            (py ''actual'', PList (map PStr ys))])))"
proof (intro conjI impI; elim conjE)
  let ?secs = "[py ''phonology'', py ''phonetics'', py ''sampa'']"
  let ?keys = "[py ''words'', py ''syllables'']"
  assume s: "s \<in> set ?secs"
    and H: "\<forall>t \<in> set ?secs. \<forall>k \<in> set ?keys.
             \<exists>ev av. subscript2 expected t k = Inr ev \<and> subscript2 actual t k = Inr av
                \<and> (py_eq ev av \<longleftrightarrow> \<not> (t = s \<and> k = py ''syllables''))"
  define E where "E t k = projr (subscript2 expected t k)" for t k
  define A where "A t k = projr (subscript2 actual t k)" for t k
  have look: "subscript2 expected t k = Inr (E t k) \<and> subscript2 actual t k = Inr (A t k)
      \<and> (py_eq (E t k) (A t k) \<longleftrightarrow> \<not> (t = s \<and> k = py ''syllables''))"
    if "t \<in> set ?secs" "k \<in> set ?keys" for t k
  proof -
    from H that obtain ev av where
      "subscript2 expected t k = Inr ev" "subscript2 actual t k = Inr av"
      "py_eq ev av \<longleftrightarrow> \<not> (t = s \<and> k = py ''syllables'')"
      by blast
    then show ?thesis by (simp add: E_def A_def)
  qed
  let ?rec = "[(py ''syllables'',
       PDict [(py ''expected'', E s (py ''syllables'')), (py ''actual'', A s (py ''syllables''))])]"
  have ck: "compare_keys expected actual t ?keys [] = Inr (if t = s then ?rec else [])"
    if "t \<in> set ?secs" for t
    using look [OF that, of "py ''words''"] look [OF that, of "py ''syllables''"]
    by (simp add: compare_keys_both)
  have dc: "dict_contains actual t" if "t \<in> set ?secs" for t
    using look [OF that, of "py ''words''"] by (auto intro: subscript2_contains)
  have "compare_results expected actual = Inr (PDict [(s, PDict ?rec)])"
    using s ck dc by (auto simp: compare_results_def)
  with look [OF s, of "py ''syllables''"]
  show "\<exists>ev av. subscript2 expected s (py ''syllables'') = Inr ev
           \<and> subscript2 actual s (py ''syllables'') = Inr av
           \<and> compare_results expected actual =
               Inr (PDict [(s, PDict [(py ''syllables'',
                                       PDict [(py ''expected'', ev), (py ''actual'', av)])])])"
    by simp
next
  let ?secs = "[py ''phonology'', py ''phonetics'', py ''sampa'']"
  let ?keys = "[py ''words'', py ''syllables'']"
  assume s: "s \<in> set ?secs"
    and H: "\<forall>t \<in> set ?secs. \<forall>k \<in> set ?keys.
             \<exists>ev av. subscript2 expected t k = Inr ev \<and> subscript2 actual t k = Inr av"
    and ew: "subscript2 expected s (py ''words'') = Inr (PList (map PStr xs))"
    and aw: "subscript2 actual s (py ''words'') = Inr (PList (map PStr ys))"
    and neq: "ys \<noteq> xs"
  define sd where "sd t = projr (compare_keys expected actual t ?keys [])" for t
  have ck: "dict_contains actual t \<and> compare_keys expected actual t ?keys [] = Inr (sd t)"
    if "t \<in> set ?secs" for t
  proof -
    from H that obtain e1 a1 e2 a2 where l:
      "subscript2 expected t (py ''words'') = Inr e1" "subscript2 actual t (py ''words'') = Inr a1"
      "subscript2 expected t (py ''syllables'') = Inr e2" "subscript2 actual t (py ''syllables'') = Inr a2"
      by (metis list.set_intros(1,2))
    then have "\<exists>r. compare_keys expected actual t ?keys [] = Inr r"
      by (simp only: compare_keys_both) blast
    then show ?thesis
      using l(2) by (auto simp: sd_def intro: subscript2_contains)
  qed
  from H s obtain e2 a2 where l2:
    "subscript2 expected s (py ''syllables'') = Inr e2" "subscript2 actual s (py ''syllables'') = Inr a2"
    by (metis list.set_intros(1,2))
  have sds: "sd s = (py ''words'', PDict [(py ''expected'', PList (map PStr xs)),
                                         (py ''actual'', PList (map PStr ys))])
        # (if py_eq e2 a2 then [] else [(py ''syllables'', PDict [(py ''expected'', e2), (py ''actual'', a2)])])"
    unfolding sd_def compare_keys_both [OF ew aw l2]
    using neq by (simp add: py_eq_strs eq_commute)
  from compare_sections_lookup [of ?secs actual expected sd "[]"] ck
  obtain d where d: "compare_sections expected actual ?secs [] = Inr d"
    "d = [] \<longleftrightarrow> [] = ([]::pydict) \<and> (\<forall>t \<in> set ?secs. sd t = [])"
    "\<forall>t. map_of d t = (if t \<in> set ?secs \<and> sd t \<noteq> [] then Some (PDict (sd t)) else map_of [] t)"
    by blast
  have "d \<noteq> []" using d(2) s sds by auto
  moreover have "map_of d s = Some (PDict (sd s))" using d(3) s sds by simp
  moreover have "map_of (sd s) (py ''words'') = Some (PDict [(py ''expected'', PList (map PStr xs)),
                            (py ''actual'', PList (map PStr ys))])"
    by (simp add: sds)
  ultimately show "\<exists>d sd. compare_results expected actual = Inr (PDict d) \<and> py_truthy (PDict d)
           \<and> map_of d s = Some (PDict sd)
           \<and> map_of sd (py ''words'') =
               Some (PDict [(py ''expected'', PList (map PStr xs)),
                            (py ''actual'', PList (map PStr ys))])"
    unfolding compare_results_Inr using d(1) by simp
qed

theorem compare_results_reports_single_difference_witness:
  "compare_results
     [(py ''input'', PStr (py ''Hola.'')),
      (py ''phonology'', section_dict \<lparr>words = [py ''ola''], syllables = [py ''o'', py ''la'']\<rparr>),
      (py ''phonetics'', section_dict \<lparr>words = [py ''ola''], syllables = [py ''o'', py ''la'']\<rparr>),
      (py ''sampa'', section_dict \<lparr>words = [py ''ola''], syllables = [py ''o'', py ''la'']\<rparr>)]
     [(py ''input'', PStr (py ''Hola.'')),
      (py ''phonology'', section_dict \<lparr>words = [py ''ola''], syllables = [py ''o'', py ''la'', py ''s'']\<rparr>),
      (py ''phonetics'', section_dict \<lparr>words = [py ''ola''], syllables = [py ''o'', py ''la'']\<rparr>),
      (py ''sampa'', section_dict \<lparr>words = [py ''ola''], syllables = [py ''o'', py ''la'']\<rparr>)]
   = Inr (PDict [(py ''phonology'', PDict [(py ''syllables'',
        PDict [(py ''expected'', PList [PStr (py ''o''), PStr (py ''la'')]),
               (py ''actual'', PList [PStr (py ''o''), PStr (py ''la''), PStr (py ''s'')])])])])
   \<and> (\<exists>d sd. compare_results
     [(py ''input'', PStr (py ''la ola'')),
      (py ''phonology'', section_dict \<lparr>words = [py ''la'', py ''ola''], syllables = []\<rparr>),
      (py ''phonetics'', section_dict \<lparr>words = [], syllables = []\<rparr>),
      (py ''sampa'', section_dict \<lparr>words = [], syllables = []\<rparr>)]
     [(py ''input'', PStr (py ''la ola'')),
      (py ''phonology'', section_dict \<lparr>words = [py ''ola'', py ''la''], syllables = []\<rparr>),
      (py ''phonetics'', section_dict \<lparr>words = [], syllables = []\<rparr>),
      (py ''sampa'', section_dict \<lparr>words = [], syllables = []\<rparr>)] = Inr (PDict d)
      \<and> py_truthy (PDict d) \<and> map_of d (py ''phonology'') = Some (PDict sd)
      \<and> map_of sd (py ''words'') =
           Some (PDict [(py ''expected'', PList [PStr (py ''la''), PStr (py ''ola'')]),
                        (py ''actual'', PList [PStr (py ''ola''), PStr (py ''la'')])]))"
proof
  show "compare_results
     [(py ''input'', PStr (py ''Hola.'')),
      (py ''phonology'', section_dict \<lparr>words = [py ''ola''], syllables = [py ''o'', py ''la'']\<rparr>),
      (py ''phonetics'', section_dict \<lparr>words = [py ''ola''], syllables = [py ''o'', py ''la'']\<rparr>),
      (py ''sampa'', section_dict \<lparr>words = [py ''ola''], syllables = [py ''o'', py ''la'']\<rparr>)]
     [(py ''input'', PStr (py ''Hola.'')),
      (py ''phonology'', section_dict \<lparr>words = [py ''ola''], syllables = [py ''o'', py ''la'', py ''s'']\<rparr>),
      (py ''phonetics'', section_dict \<lparr>words = [py ''ola''], syllables = [py ''o'', py ''la'']\<rparr>),
      (py ''sampa'', section_dict \<lparr>words = [py ''ola''], syllables = [py ''o'', py ''la'']\<rparr>)]
   = Inr (PDict [(py ''phonology'', PDict [(py ''syllables'',
        PDict [(py ''expected'', PList [PStr (py ''o''), PStr (py ''la'')]),
               (py ''actual'', PList [PStr (py ''o''), PStr (py ''la''), PStr (py ''s'')])])])])"
    using compare_results_reports_single_difference
      [of "py ''phonology''"
        "[(py ''input'', PStr (py ''Hola.'')),
      (py ''phonology'', section_dict \<lparr>words = [py ''ola''], syllables = [py ''o'', py ''la'']\<rparr>),
      (py ''phonetics'', section_dict \<lparr>words = [py ''ola''], syllables = [py ''o'', py ''la'']\<rparr>),
      (py ''sampa'', section_dict \<lparr>words = [py ''ola''], syllables = [py ''o'', py ''la'']\<rparr>)]"
        "[(py ''input'', PStr (py ''Hola.'')),
      (py ''phonology'', section_dict \<lparr>words = [py ''ola''], syllables = [py ''o'', py ''la'', py ''s'']\<rparr>),
      (py ''phonetics'', section_dict \<lparr>words = [py ''ola''], syllables = [py ''o'', py ''la'']\<rparr>),
      (py ''sampa'', section_dict \<lparr>words = [py ''ola''], syllables = [py ''o'', py ''la'']\<rparr>)]"]
    by (simp add: section_dict_def subscript2_def dict_get_def)
next
  show "\<exists>d sd. compare_results
     [(py ''input'', PStr (py ''la ola'')),
      (py ''phonology'', section_dict \<lparr>words = [py ''la'', py ''ola''], syllables = []\<rparr>),
      (py ''phonetics'', section_dict \<lparr>words = [], syllables = []\<rparr>),
      (py ''sampa'', section_dict \<lparr>words = [], syllables = []\<rparr>)]
     [(py ''input'', PStr (py ''la ola'')),
      (py ''phonology'', section_dict \<lparr>words = [py ''ola'', py ''la''], syllables = []\<rparr>),
      (py ''phonetics'', section_dict \<lparr>words = [], syllables = []\<rparr>),
      (py ''sampa'', section_dict \<lparr>words = [], syllables = []\<rparr>)] = Inr (PDict d)
      \<and> py_truthy (PDict d) \<and> map_of d (py ''phonology'') = Some (PDict sd)
      \<and> map_of sd (py ''words'') =
           Some (PDict [(py ''expected'', PList [PStr (py ''la''), PStr (py ''ola'')]),
                        (py ''actual'', PList [PStr (py ''ola''), PStr (py ''la'')])])"
    using compare_results_reports_single_difference
      [of "py ''phonology''"
       "[(py ''input'', PStr (py ''la ola'')),
      (py ''phonology'', section_dict \<lparr>words = [py ''la'', py ''ola''], syllables = []\<rparr>),
      (py ''phonetics'', section_dict \<lparr>words = [], syllables = []\<rparr>),
      (py ''sampa'', section_dict \<lparr>words = [], syllables = []\<rparr>)]"
       "[(py ''input'', PStr (py ''la ola'')),
      (py ''phonology'', section_dict \<lparr>words = [py ''ola'', py ''la''], syllables = []\<rparr>),
      (py ''phonetics'', section_dict \<lparr>words = [], syllables = []\<rparr>),
      (py ''sampa'', section_dict \<lparr>words = [], syllables = []\<rparr>)]"
       "[py ''la'', py ''ola'']" "[py ''ola'', py ''la'']"]
    by (simp add: section_dict_def subscript2_def dict_get_def)
qed

text \<open>
  C10. Two actual results that hold the same \<open>words\<close> and \<open>syllables\<close> values in
  the three sections give the same comparison against one expected result, whatever
  else they contain.
\<close>

theorem compare_results_ignores_extra_keys:
  "(\<forall>s \<in> set [py ''phonology'', py ''phonetics'', py ''sampa''].
      \<forall>k \<in> set [py ''words'', py ''syllables''].
        \<exists>v. subscript2 actual1 s k = Inr v \<and> subscript2 actual2 s k = Inr v)
   \<Longrightarrow> compare_results expected actual1 = compare_results expected actual2"
proof -
  assume H: "\<forall>s \<in> set [py ''phonology'', py ''phonetics'', py ''sampa''].
      \<forall>k \<in> set [py ''words'', py ''syllables''].
        \<exists>v. subscript2 actual1 s k = Inr v \<and> subscript2 actual2 s k = Inr v"
  have "\<forall>s \<in> set [py ''phonology'', py ''phonetics'', py ''sampa''].
          dict_contains actual1 s = dict_contains actual2 s
          \<and> (\<forall>k \<in> set [py ''words'', py ''syllables'']. subscript2 actual1 s k = subscript2 actual2 s k)"
  proof (intro ballI conjI)
    fix s assume s: "s \<in> set [py ''phonology'', py ''phonetics'', py ''sampa'']"
    with H obtain v where "subscript2 actual1 s (py ''words'') = Inr v"
      "subscript2 actual2 s (py ''words'') = Inr v"
      by (metis list.set_intros(1))
    then show "dict_contains actual1 s = dict_contains actual2 s"
      by (simp add: subscript2_contains)
  next
    fix s k assume "s \<in> set [py ''phonology'', py ''phonetics'', py ''sampa'']"
      "k \<in> set [py ''words'', py ''syllables'']"
    with H show "subscript2 actual1 s k = subscript2 actual2 s k"
      by metis
  qed
  then show ?thesis
    unfolding compare_results_def by (simp only: compare_sections_agree)
qed

theorem compare_results_ignores_extra_keys_witness:
  "compare_results
     [(py ''phonology'', section_dict \<lparr>words = [py ''ola''], syllables = [py ''o'', py ''la'']\<rparr>),
      (py ''phonetics'', section_dict \<lparr>words = [py ''ola''], syllables = []\<rparr>),
      (py ''sampa'', section_dict \<lparr>words = [], syllables = [py ''o'']\<rparr>)]
     [(py ''input'', PStr (py ''Hola.'')),
      (py ''extra'', PDict [(py ''words'', PList [PStr (py ''x'')])]),
      (py ''phonology'', PDict [(py ''stress'', PInt 1), (py ''syllables'', PList [PStr (py ''o''), PStr (py ''la'')]),
                               (py ''words'', PList [PStr (py ''ola'')])]),
      (py ''phonetics'', section_dict \<lparr>words = [py ''ola''], syllables = [py ''o'']\<rparr>),
      (py ''sampa'', section_dict \<lparr>words = [], syllables = [py ''o'']\<rparr>)]
   = compare_results
     [(py ''phonology'', section_dict \<lparr>words = [py ''ola''], syllables = [py ''o'', py ''la'']\<rparr>),
      (py ''phonetics'', section_dict \<lparr>words = [py ''ola''], syllables = []\<rparr>),
      (py ''sampa'', section_dict \<lparr>words = [], syllables = [py ''o'']\<rparr>)]
     [(py ''phonology'', section_dict \<lparr>words = [py ''ola''], syllables = [py ''o'', py ''la'']\<rparr>),
      (py ''phonetics'', section_dict \<lparr>words = [py ''ola''], syllables = [py ''o'']\<rparr>),
      (py ''sampa'', section_dict \<lparr>words = [], syllables = [py ''o'']\<rparr>)]"
  using compare_results_ignores_extra_keys
    [of "[(py ''input'', PStr (py ''Hola.'')),
      (py ''extra'', PDict [(py ''words'', PList [PStr (py ''x'')])]),
      (py ''phonology'', PDict [(py ''stress'', PInt 1), (py ''syllables'', PList [PStr (py ''o''), PStr (py ''la'')]),
                               (py ''words'', PList [PStr (py ''ola'')])]),
      (py ''phonetics'', section_dict \<lparr>words = [py ''ola''], syllables = [py ''o'']\<rparr>),
      (py ''sampa'', section_dict \<lparr>words = [], syllables = [py ''o'']\<rparr>)]"
     "[(py ''phonology'', section_dict \<lparr>words = [py ''ola''], syllables = [py ''o'', py ''la'']\<rparr>),
      (py ''phonetics'', section_dict \<lparr>words = [py ''ola''], syllables = [py ''o'']\<rparr>),
      (py ''sampa'', section_dict \<lparr>words = [], syllables = [py ''o'']\<rparr>)]"
     "[(py ''phonology'', section_dict \<lparr>words = [py ''ola''], syllables = [py ''o'', py ''la'']\<rparr>),
      (py ''phonetics'', section_dict \<lparr>words = [py ''ola''], syllables = []\<rparr>),
      (py ''sampa'', section_dict \<lparr>words = [], syllables = [py ''o'']\<rparr>)]"]
  by (simp add: section_dict_def subscript2_def dict_get_def)

section \<open>Facts about missing sections and keys\<close>

lemma subscript2_error_is_keyerror:
  assumes "\<forall>v. map_of d t = Some v \<longrightarrow> (\<exists>sec. v = PDict sec)"
    and "subscript2 d t k = Inl err"
  shows "\<exists>k'. err = KeyError k'"
  using assms
  by (auto simp: subscript2_def dict_get_def split: option.splits)

lemma compare_keys_error_is_keyerror:
  assumes "\<forall>v. map_of expected t = Some v \<longrightarrow> (\<exists>sec. v = PDict sec)"
    and "\<forall>v. map_of actual t = Some v \<longrightarrow> (\<exists>sec. v = PDict sec)"
    and "compare_keys expected actual t keys section_diffs = Inl err"
  shows "\<exists>k'. err = KeyError k'"
  using assms(3)
proof (induction keys arbitrary: section_diffs)
  case Nil
  then show ?case by simp
next
  case (Cons k keys)
  then show ?case
    using subscript2_error_is_keyerror [OF assms(1)] subscript2_error_is_keyerror [OF assms(2)]
    by (auto split: sum.splits if_splits)
qed

lemma compare_keys_raises:
  assumes "k \<in> set keys"
    and "isl (subscript2 expected t k) \<or> isl (subscript2 actual t k)"
  shows "isl (compare_keys expected actual t keys section_diffs)"
  using assms
  by (induction keys arbitrary: section_diffs) (auto split: sum.splits)

lemma compare_sections_raises:
  assumes wf: "\<forall>t \<in> set sections. \<forall>v.
             (map_of expected t = Some v \<longrightarrow> (\<exists>sec. v = PDict sec))
           \<and> (map_of actual t = Some v \<longrightarrow> (\<exists>sec. v = PDict sec))"
    and s: "s \<in> set sections" "dict_contains actual s"
    and k: "k \<in> set [py ''words'', py ''syllables'']"
      "isl (subscript2 expected s k) \<or> isl (subscript2 actual s k)"
  shows "\<exists>k'. compare_sections expected actual sections differences = Inl (KeyError k')"
  using wf s(1)
proof (induction sections arbitrary: differences)
  case Nil
  then show ?case by simp
next
  case (Cons t sections)
  let ?keys = "[py ''words'', py ''syllables'']"
  show ?case
  proof (cases "dict_contains actual t")
    case False
    then have "t \<noteq> s" using s(2) by auto
    then have "s \<in> set sections" using Cons.prems(2) by simp
    then show ?thesis using Cons.IH Cons.prems(1) False by simp
  next
    case True
    show ?thesis
    proof (cases "compare_keys expected actual t ?keys []")
      case (Inl err)
      then obtain k' where "err = KeyError k'"
        using compare_keys_error_is_keyerror [of expected t actual ?keys "[]" err] Cons.prems(1)
        by auto
      then show ?thesis using True Inl by simp
    next
      case (Inr sd)
      then have "t \<noteq> s"
        using compare_keys_raises [OF k, of "[]"] by auto
      then have "s \<in> set sections" using Cons.prems(2) by simp
      then show ?thesis using Cons.IH Cons.prems(1) True Inr by simp
    qed
  qed
qed

lemma compare_sections_missing:
  assumes "compare_sections expected actual sections differences = Inr d"
    and "\<not> dict_contains actual s"
    and "s \<in> set sections \<or> map_of differences s = Some m"
    and "m = PDict [(py ''error'', PStr (py ''Section missing in actual output''))]"
  shows "map_of d s = Some m"
  using assms(1,3)
proof (induction sections arbitrary: differences)
  case Nil
  then show ?case by simp
next
  case (Cons t sections)
  show ?case
  proof (cases "dict_contains actual t")
    case False
    let ?d1 = "dict_set differences t m"
    have run: "compare_sections expected actual sections ?d1 = Inr d"
      using Cons.prems(1) False assms(4) by simp
    have "s \<in> set sections \<or> map_of ?d1 s = Some m"
      using Cons.prems(2) by (auto simp: map_of_dict_set)
    with run show ?thesis by (rule Cons.IH)
  next
    case True
    then have ts: "t \<noteq> s" using assms(2) by auto
    from Cons.prems(1) True obtain sd where
      sd: "compare_keys expected actual t [py ''words'', py ''syllables''] [] = Inr sd"
      by (auto split: sum.splits)
    let ?d1 = "if sd \<noteq> [] then dict_set differences t (PDict sd) else differences"
    have run: "compare_sections expected actual sections ?d1 = Inr d"
      using Cons.prems(1) True sd by (simp split: if_splits)
    have "s \<in> set sections \<or> map_of ?d1 s = Some m"
      using Cons.prems(2) ts by (auto simp: map_of_dict_set)
    with run show ?thesis by (rule Cons.IH)
  qed
qed

lemma compare_results_missing:
  assumes "compare_results expected actual = Inr (PDict d)"
    and "s \<in> set [py ''phonology'', py ''phonetics'', py ''sampa'']"
    and "\<not> dict_contains actual s"
  shows "map_of d s = Some (PDict [(py ''error'', PStr (py ''Section missing in actual output''))])"
proof -
  have "compare_sections expected actual [py ''phonology'', py ''phonetics'', py ''sampa''] [] = Inr d"
    using assms(1) unfolding compare_results_Inr by simp
  then show ?thesis
    using assms(3)
  proof (rule compare_sections_missing)
    show "s \<in> set [py ''phonology'', py ''phonetics'', py ''sampa''] \<or> map_of [] s =
      Some (PDict [(py ''error'', PStr (py ''Section missing in actual output''))])"
      using assms(2) by (rule disjI1)
  qed (rule refl)
qed

lemma missing_key_raises:
  assumes "map_of d s = Some (PDict sec)" and "\<not> dict_contains sec k"
  shows "isl (subscript2 d s k)"
  using assms by (simp add: subscript2_def dict_get_def dict_contains_def)

lemma missing_section_raises:
  assumes "\<not> dict_contains d s"
  shows "isl (subscript2 d s k)"
  using assms by (simp add: subscript2_def dict_get_def dict_contains_def)

lemma compare_results_raises:
  assumes wf: "\<forall>t \<in> set [py ''phonology'', py ''phonetics'', py ''sampa'']. \<forall>v.
           (map_of expected t = Some v \<longrightarrow> (\<exists>sec. v = PDict sec))
         \<and> (map_of actual t = Some v \<longrightarrow> (\<exists>sec. v = PDict sec))"
    and s: "s \<in> set [py ''phonology'', py ''phonetics'', py ''sampa'']" "dict_contains actual s"
    and trig: "\<not> dict_contains expected s
          \<or> (\<exists>k \<in> set [py ''words'', py ''syllables'']. \<exists>sec.
                (map_of expected s = Some (PDict sec) \<or> map_of actual s = Some (PDict sec))
                \<and> \<not> dict_contains sec k)"
  shows "\<exists>k. compare_results expected actual = Inl (KeyError k)"
proof -
  let ?keys = "[py ''words'', py ''syllables'']"
  have "\<exists>k. k \<in> set ?keys \<and> (isl (subscript2 expected s k) \<or> isl (subscript2 actual s k))"
    using trig
  proof
    assume "\<not> dict_contains expected s"
    then have "isl (subscript2 expected s (py ''words''))"
      by (rule missing_section_raises)
    moreover have "py ''words'' \<in> set ?keys" by simp
    ultimately show ?thesis by blast
  next
    assume "\<exists>k \<in> set ?keys. \<exists>sec.
                (map_of expected s = Some (PDict sec) \<or> map_of actual s = Some (PDict sec))
                \<and> \<not> dict_contains sec k"
    then obtain k sec where k: "k \<in> set ?keys"
      and sec: "map_of expected s = Some (PDict sec) \<or> map_of actual s = Some (PDict sec)"
        "\<not> dict_contains sec k"
      by blast
    from sec have "isl (subscript2 expected s k) \<or> isl (subscript2 actual s k)"
      using missing_key_raises by blast
    with k show ?thesis by blast
  qed
  then obtain k where "k \<in> set ?keys" "isl (subscript2 expected s k) \<or> isl (subscript2 actual s k)"
    by blast
  from compare_sections_raises [OF wf s this, of "[]"]
  obtain k' where "compare_sections expected actual [py ''phonology'', py ''phonetics'', py ''sampa''] []
     = Inl (KeyError k')"
    by blast
  then show ?thesis
    unfolding compare_results_Inl by blast
qed

lemma compare_keys_returns:
  assumes "\<forall>k \<in> set keys. \<exists>ev av. subscript2 expected t k = Inr ev
             \<and> subscript2 actual t k = Inr av"
  shows "\<exists>sd. compare_keys expected actual t keys section_diffs = Inr sd"
  using assms
proof (induction keys arbitrary: section_diffs)
  case Nil
  then show ?case by simp
next
  case (Cons k keys)
  then obtain ev av where "subscript2 expected t k = Inr ev" "subscript2 actual t k = Inr av"
    by auto
  moreover have "\<And>sd0. \<exists>sd. compare_keys expected actual t keys sd0 = Inr sd"
    using Cons by simp
  ultimately show ?case by simp
qed

lemma compare_sections_returns:
  assumes "\<forall>t \<in> set sections. dict_contains actual t \<longrightarrow>
             (\<forall>k \<in> set [py ''words'', py ''syllables''].
                \<exists>ev av. subscript2 expected t k = Inr ev \<and> subscript2 actual t k = Inr av)"
  shows "\<exists>d. compare_sections expected actual sections differences = Inr d"
  using assms
proof (induction sections arbitrary: differences)
  case Nil
  then show ?case by simp
next
  case (Cons t sections)
  have rest: "\<And>d0. \<exists>d. compare_sections expected actual sections d0 = Inr d"
    using Cons by simp
  show ?case
  proof (cases "dict_contains actual t")
    case False
    then show ?thesis using rest by simp
  next
    case True
    with Cons.prems have "\<forall>k \<in> set [py ''words'', py ''syllables''].
        \<exists>ev av. subscript2 expected t k = Inr ev \<and> subscript2 actual t k = Inr av"
      by simp
    from compare_keys_returns [OF this, of "[]"] obtain sd where
      "compare_keys expected actual t [py ''words'', py ''syllables''] [] = Inr sd"
      by blast
    then show ?thesis using True rest by simp
  qed
qed

lemma compare_results_reports_missing:
  assumes "\<forall>t \<in> set [py ''phonology'', py ''phonetics'', py ''sampa''].
             dict_contains actual t \<longrightarrow>
             (\<forall>k \<in> set [py ''words'', py ''syllables''].
                \<exists>ev av. subscript2 expected t k = Inr ev \<and> subscript2 actual t k = Inr av)"
  shows "\<exists>d. compare_results expected actual = Inr (PDict d)
           \<and> (\<forall>s \<in> set [py ''phonology'', py ''phonetics'', py ''sampa''].
                 \<not> dict_contains actual s \<longrightarrow>
                 map_of d s =
                   Some (PDict [(py ''error'', PStr (py ''Section missing in actual output''))]))"
proof -
  from compare_sections_returns [OF assms, of "[]"] obtain d where
    "compare_sections expected actual [py ''phonology'', py ''phonetics'', py ''sampa''] []
       = Inr d"
    by blast
  then have r: "compare_results expected actual = Inr (PDict d)"
    unfolding compare_results_Inr by blast
  then have "\<forall>s \<in> set [py ''phonology'', py ''phonetics'', py ''sampa''].
                 \<not> dict_contains actual s \<longrightarrow>
                 map_of d s =
                   Some (PDict [(py ''error'', PStr (py ''Section missing in actual output''))])"
    using compare_results_missing by blast
  with r show ?thesis by blast
qed

section \<open>The claim about missing sections and keys\<close>

text \<open>
  C9 (amended). The guard for a section absent from \<open>actual\<close> records a
  \<open>Section missing\<close> entry and goes on to the next section without reading
  \<open>expected\<close>. So when every section that is present in \<open>actual\<close> has its \<open>words\<close>
  and \<open>syllables\<close> on both sides, \<open>compare_results\<close> returns, and its result reports
  every section absent from \<open>actual\<close> as missing, whatever \<open>expected\<close> holds for it:
  a section absent from both sides raises nothing. When the sections present on either
  side are dictionaries and some section that is present in \<open>actual\<close> is absent from
  \<open>expected\<close>, or is a dictionary on one side that lacks \<open>words\<close> or
  \<open>syllables\<close>, the comparison raises \<open>KeyError\<close> and returns nothing.
\<close>

theorem compare_results_missing_key_raises:
  "(\<not> dict_contains actual s
    \<longrightarrow> compare_sections expected actual (s # rest) differences =
        compare_sections expected actual rest
          (dict_set differences s
             (PDict [(py ''error'', PStr (py ''Section missing in actual output''))])))
   \<and> ((\<forall>t \<in> set [py ''phonology'', py ''phonetics'', py ''sampa''].
          dict_contains actual t \<longrightarrow>
          (\<forall>k \<in> set [py ''words'', py ''syllables''].
             \<exists>ev av. subscript2 expected t k = Inr ev \<and> subscript2 actual t k = Inr av))
    \<longrightarrow> (\<exists>d'. compare_results expected actual = Inr (PDict d')
          \<and> (\<forall>t \<in> set [py ''phonology'', py ''phonetics'', py ''sampa''].
                \<not> dict_contains actual t \<longrightarrow>
                map_of d' t =
                  Some (PDict [(py ''error'', PStr (py ''Section missing in actual output''))]))))
   \<and> (compare_results expected actual = Inr (PDict d)
      \<and> s \<in> set [py ''phonology'', py ''phonetics'', py ''sampa'']
      \<and> \<not> dict_contains actual s
    \<longrightarrow> map_of d s = Some (PDict [(py ''error'', PStr (py ''Section missing in actual output''))]))
   \<and> ((\<forall>t \<in> set [py ''phonology'', py ''phonetics'', py ''sampa'']. \<forall>v.
           (map_of expected t = Some v \<longrightarrow> (\<exists>sec. v = PDict sec))
         \<and> (map_of actual t = Some v \<longrightarrow> (\<exists>sec. v = PDict sec)))
      \<and> s \<in> set [py ''phonology'', py ''phonetics'', py ''sampa'']
      \<and> dict_contains actual s
      \<and> (\<not> dict_contains expected s
          \<or> (\<exists>k \<in> set [py ''words'', py ''syllables'']. \<exists>sec.
                (map_of expected s = Some (PDict sec) \<or> map_of actual s = Some (PDict sec))
                \<and> \<not> dict_contains sec k))
    \<longrightarrow> (\<exists>k. compare_results expected actual = Inl (KeyError k)))"
proof (intro conjI)
  show "\<not> dict_contains actual s
    \<longrightarrow> compare_sections expected actual (s # rest) differences =
        compare_sections expected actual rest
          (dict_set differences s
             (PDict [(py ''error'', PStr (py ''Section missing in actual output''))]))"
    by simp
next
  show "(\<forall>t \<in> set [py ''phonology'', py ''phonetics'', py ''sampa''].
          dict_contains actual t \<longrightarrow>
          (\<forall>k \<in> set [py ''words'', py ''syllables''].
             \<exists>ev av. subscript2 expected t k = Inr ev \<and> subscript2 actual t k = Inr av))
    \<longrightarrow> (\<exists>d'. compare_results expected actual = Inr (PDict d')
          \<and> (\<forall>t \<in> set [py ''phonology'', py ''phonetics'', py ''sampa''].
                \<not> dict_contains actual t \<longrightarrow>
                map_of d' t =
                  Some (PDict [(py ''error'', PStr (py ''Section missing in actual output''))])))"
    using compare_results_reports_missing [of actual expected] by blast
next
  show "compare_results expected actual = Inr (PDict d)
      \<and> s \<in> set [py ''phonology'', py ''phonetics'', py ''sampa'']
      \<and> \<not> dict_contains actual s
    \<longrightarrow> map_of d s = Some (PDict [(py ''error'', PStr (py ''Section missing in actual output''))])"
    using compare_results_missing [of expected actual d s] by blast
next
  show "(\<forall>t \<in> set [py ''phonology'', py ''phonetics'', py ''sampa'']. \<forall>v.
           (map_of expected t = Some v \<longrightarrow> (\<exists>sec. v = PDict sec))
         \<and> (map_of actual t = Some v \<longrightarrow> (\<exists>sec. v = PDict sec)))
      \<and> s \<in> set [py ''phonology'', py ''phonetics'', py ''sampa'']
      \<and> dict_contains actual s
      \<and> (\<not> dict_contains expected s
          \<or> (\<exists>k \<in> set [py ''words'', py ''syllables'']. \<exists>sec.
                (map_of expected s = Some (PDict sec) \<or> map_of actual s = Some (PDict sec))
                \<and> \<not> dict_contains sec k))
    \<longrightarrow> (\<exists>k. compare_results expected actual = Inl (KeyError k))"
    using compare_results_raises [of expected actual s] by blast
qed

theorem compare_results_missing_key_raises_witness:
  "compare_results
     [(py ''phonology'', section_dict \<lparr>words = [py ''ola''], syllables = [py ''o'', py ''la'']\<rparr>)]
     [(py ''phonology'', section_dict \<lparr>words = [py ''ola''], syllables = [py ''o'', py ''la'']\<rparr>)]
     = Inr (PDict
         [(py ''phonetics'', PDict [(py ''error'', PStr (py ''Section missing in actual output''))]),
          (py ''sampa'', PDict [(py ''error'', PStr (py ''Section missing in actual output''))])])
   \<and> compare_results
     [(py ''phonology'', section_dict \<lparr>words = [py ''ola''], syllables = [py ''o'', py ''la'']\<rparr>),
      (py ''phonetics'', section_dict \<lparr>words = [py ''ola''], syllables = [py ''o'', py ''la'']\<rparr>),
      (py ''sampa'', section_dict \<lparr>words = [py ''ola''], syllables = [py ''o'', py ''la'']\<rparr>)]
     [(py ''phonology'', section_dict \<lparr>words = [py ''ola''], syllables = [py ''o'', py ''la'']\<rparr>),
      (py ''phonetics'', section_dict \<lparr>words = [py ''ola''], syllables = [py ''o'', py ''la'']\<rparr>)]
     = Inr (PDict [(py ''sampa'',
                    PDict [(py ''error'', PStr (py ''Section missing in actual output''))])])
   \<and> compare_results
     [(py ''phonology'', section_dict \<lparr>words = [py ''ola''], syllables = [py ''o'', py ''la'']\<rparr>),
      (py ''sampa'', section_dict \<lparr>words = [py ''ola''], syllables = [py ''o'', py ''la'']\<rparr>)]
     [(py ''phonology'', section_dict \<lparr>words = [py ''ola''], syllables = [py ''o'', py ''la'']\<rparr>),
      (py ''phonetics'', section_dict \<lparr>words = [py ''ola''], syllables = [py ''o'', py ''la'']\<rparr>),
      (py ''sampa'', section_dict \<lparr>words = [py ''ola''], syllables = [py ''o'', py ''la'']\<rparr>)]
     = Inl (KeyError (py ''phonetics''))
   \<and> compare_results
     [(py ''phonology'', section_dict \<lparr>words = [py ''ola''], syllables = [py ''o'', py ''la'']\<rparr>),
      (py ''phonetics'', section_dict \<lparr>words = [py ''ola''], syllables = [py ''o'', py ''la'']\<rparr>),
      (py ''sampa'', section_dict \<lparr>words = [py ''ola''], syllables = [py ''o'', py ''la'']\<rparr>)]
     [(py ''phonology'', PDict [(py ''words'', PList [PStr (py ''ola'')])]),
      (py ''phonetics'', section_dict \<lparr>words = [py ''ola''], syllables = [py ''o'', py ''la'']\<rparr>),
      (py ''sampa'', section_dict \<lparr>words = [py ''ola''], syllables = [py ''o'', py ''la'']\<rparr>)]
     = Inl (KeyError (py ''syllables''))"
proof -
  let ?sec = "section_dict \<lparr>words = [py ''ola''], syllables = [py ''o'', py ''la'']\<rparr>"
  let ?only_phonology = "[(py ''phonology'', ?sec)]"
  let ?full = "[(py ''phonology'', ?sec), (py ''phonetics'', ?sec), (py ''sampa'', ?sec)]"
  let ?no_sampa = "[(py ''phonology'', ?sec), (py ''phonetics'', ?sec)]"
  let ?no_phonetics = "[(py ''phonology'', ?sec), (py ''sampa'', ?sec)]"
  let ?no_syllables = "[(py ''phonology'', PDict [(py ''words'', PList [PStr (py ''ola'')])]),
      (py ''phonetics'', ?sec), (py ''sampa'', ?sec)]"
  let ?missing = "PDict [(py ''error'', PStr (py ''Section missing in actual output''))]"
  let ?sections = "[py ''phonology'', py ''phonetics'', py ''sampa'']"
  have h0: "\<forall>t \<in> set ?sections. dict_contains ?only_phonology t \<longrightarrow>
          (\<forall>k \<in> set [py ''words'', py ''syllables''].
             \<exists>ev av. subscript2 ?only_phonology t k = Inr ev
                \<and> subscript2 ?only_phonology t k = Inr av)"
    by (simp add: section_dict_def subscript2_def dict_get_def dict_contains_def)
  have c0: "\<exists>d'. compare_results ?only_phonology ?only_phonology = Inr (PDict d')
          \<and> (\<forall>t \<in> set ?sections. \<not> dict_contains ?only_phonology t \<longrightarrow>
                map_of d' t = Some ?missing)"
    using compare_results_missing_key_raises
      [of ?only_phonology "py ''sampa''" ?only_phonology "[]" "[]" "[]",
       THEN conjunct2, THEN conjunct1, THEN mp, OF h0] .
  have ha: "\<not> dict_contains ?only_phonology (py ''sampa'')"
    by (simp add: dict_contains_def)
  have ca: "compare_sections ?only_phonology ?only_phonology [py ''sampa''] [] =
        compare_sections ?only_phonology ?only_phonology []
          (dict_set [] (py ''sampa'') ?missing)"
    using compare_results_missing_key_raises
      [of ?only_phonology "py ''sampa''" ?only_phonology "[]" "[]" "[]",
       THEN conjunct1, THEN mp, OF ha] .
  have h1: "compare_results ?full ?no_sampa = Inr (PDict [(py ''sampa'', ?missing)])
      \<and> py ''sampa'' \<in> set ?sections \<and> \<not> dict_contains ?no_sampa (py ''sampa'')"
    by (simp add: compare_results_def section_dict_def subscript2_def dict_get_def
        dict_contains_def)
  have c1: "map_of [(py ''sampa'', ?missing)] (py ''sampa'') = Some ?missing"
    using compare_results_missing_key_raises
      [of ?no_sampa "py ''sampa''" ?full "[]" "[]" "[(py ''sampa'', ?missing)]",
       THEN conjunct2, THEN conjunct2, THEN conjunct1, THEN mp, OF h1] .
  have h2: "(\<forall>t \<in> set ?sections. \<forall>v.
           (map_of ?no_phonetics t = Some v \<longrightarrow> (\<exists>sec. v = PDict sec))
         \<and> (map_of ?full t = Some v \<longrightarrow> (\<exists>sec. v = PDict sec)))
      \<and> py ''phonetics'' \<in> set ?sections
      \<and> dict_contains ?full (py ''phonetics'')
      \<and> (\<not> dict_contains ?no_phonetics (py ''phonetics'')
          \<or> (\<exists>k \<in> set [py ''words'', py ''syllables'']. \<exists>sec.
                (map_of ?no_phonetics (py ''phonetics'') = Some (PDict sec)
                 \<or> map_of ?full (py ''phonetics'') = Some (PDict sec))
                \<and> \<not> dict_contains sec k))"
    by (auto simp: section_dict_def dict_contains_def)
  have c2: "\<exists>k. compare_results ?no_phonetics ?full = Inl (KeyError k)"
    using compare_results_missing_key_raises
      [of ?full "py ''phonetics''" ?no_phonetics "[]" "[]" "[]",
       THEN conjunct2, THEN conjunct2, THEN conjunct2, THEN mp, OF h2] .
  have h3: "(\<forall>t \<in> set ?sections. \<forall>v.
           (map_of ?full t = Some v \<longrightarrow> (\<exists>sec. v = PDict sec))
         \<and> (map_of ?no_syllables t = Some v \<longrightarrow> (\<exists>sec. v = PDict sec)))
      \<and> py ''phonology'' \<in> set ?sections
      \<and> dict_contains ?no_syllables (py ''phonology'')
      \<and> (\<not> dict_contains ?full (py ''phonology'')
          \<or> (\<exists>k \<in> set [py ''words'', py ''syllables'']. \<exists>sec.
                (map_of ?full (py ''phonology'') = Some (PDict sec)
                 \<or> map_of ?no_syllables (py ''phonology'') = Some (PDict sec))
                \<and> \<not> dict_contains sec k))"
    by (auto simp: section_dict_def dict_contains_def)
  have c3: "\<exists>k. compare_results ?full ?no_syllables = Inl (KeyError k)"
    using compare_results_missing_key_raises
      [of ?no_syllables "py ''phonology''" ?full "[]" "[]" "[]",
       THEN conjunct2, THEN conjunct2, THEN conjunct2, THEN mp, OF h3] .
  from c0 ca h1 c1 c2 c3 show ?thesis
    by (simp add: compare_results_def section_dict_def subscript2_def dict_get_def
        dict_contains_def)
qed

text \<open>
  C9 as stated fails: a section absent from \<open>expected\<close> raises nothing when it is
  absent from \<open>actual\<close> too; the guard reports it as missing and goes on.
\<close>

theorem compare_results_absent_on_both_sides_counterexample:
  "\<not> dict_contains
       [(py ''phonology'', section_dict \<lparr>words = [py ''ola''], syllables = [py ''o'', py ''la'']\<rparr>),
        (py ''phonetics'', section_dict \<lparr>words = [py ''ola''], syllables = [py ''o'', py ''la'']\<rparr>)]
       (py ''sampa'')
   \<and> compare_results
     [(py ''phonology'', section_dict \<lparr>words = [py ''ola''], syllables = [py ''o'', py ''la'']\<rparr>),
      (py ''phonetics'', section_dict \<lparr>words = [py ''ola''], syllables = [py ''o'', py ''la'']\<rparr>)]
     [(py ''phonology'', section_dict \<lparr>words = [py ''ola''], syllables = [py ''o'', py ''la'']\<rparr>),
      (py ''phonetics'', section_dict \<lparr>words = [py ''ola''], syllables = [py ''o'', py ''la'']\<rparr>)]
     = Inr (PDict [(py ''sampa'',
                    PDict [(py ''error'', PStr (py ''Section missing in actual output''))])])
   \<and> (\<forall>k. Inr (PDict [(py ''sampa'',
                    PDict [(py ''error'', PStr (py ''Section missing in actual output''))])])
          \<noteq> (Inl (KeyError k) :: py_error + pyval))"
  by (simp add: compare_results_def section_dict_def subscript2_def dict_get_def dict_contains_def)

section \<open>Facts about generation\<close>








section \<open>The claim about generation\<close>



section \<open>Facts about the test run\<close>

lemma dict_get_input:
  "dict_contains e k \<Longrightarrow> dict_get e k = Inr (the (map_of e k))"
  by (auto simp: dict_contains_def dict_get_def)

lemma dict_get_Inr: "dict_get e k = Inr v \<Longrightarrow> the (map_of e k) = v"
  by (auto simp: dict_get_def split: option.splits)

text \<open>What one pass of the loop does when the whole run returns.\<close>

lemma run_loop_Cons_cases:
  assumes "run_loop eng con verbose i (e # ds) (r, c) = Inr (r', c')"
  obtains
    (skip) sentence where "dict_get e (py ''input'') = Inr sentence"
      "dict_contains e (py ''error'')"
      "run_loop eng con verbose (i + 1) ds (r\<lparr>errors := errors r + 1\<rparr>, c) = Inr (r', c')"
  | (normal) sentence r1 where "dict_get e (py ''input'') = Inr sentence"
      "\<not> dict_contains e (py ''error'')"
      "try_entry eng con verbose i e sentence r = Inr r1"
      "run_loop eng con verbose (i + 1) ds (r1, c @ [sentence]) = Inr (r', c')"
  | (caught) sentence ex r1 r2 where "dict_get e (py ''input'') = Inr sentence"
      "\<not> dict_contains e (py ''error'')"
      "try_entry eng con verbose i e sentence r = Inl (ex, r1)"
      "except_handler con verbose i sentence ex r1 = Inr r2"
      "run_loop eng con verbose (i + 1) ds (r2, c @ [sentence]) = Inr (r', c')"
proof -
  from assms obtain sentence where inp: "dict_get e (py ''input'') = Inr sentence"
    by (auto split: sum.splits)
  show ?thesis
  proof (cases "dict_contains e (py ''error'')")
    case True
    with assms inp
    have "run_loop eng con verbose (i + 1) ds (r\<lparr>errors := errors r + 1\<rparr>, c) = Inr (r', c')"
      by (simp split: if_splits)
    with inp True show ?thesis by (rule skip)
  next
    case False
    show ?thesis
    proof (cases "try_entry eng con verbose i e sentence r")
      case (Inr r1)
      with assms inp False
      have "run_loop eng con verbose (i + 1) ds (r1, c @ [sentence]) = Inr (r', c')"
        by simp
      with inp False Inr show ?thesis by (rule normal)
    next
      case (Inl p)
      obtain ex r1 where p: "p = (ex, r1)" by (cases p)
      from assms inp False Inl p obtain r2 where
        "except_handler con verbose i sentence ex r1 = Inr r2"
        "run_loop eng con verbose (i + 1) ds (r2, c @ [sentence]) = Inr (r', c')"
        by (auto split: sum.splits)
      with inp False Inl p show ?thesis by (auto intro: caught)
    qed
  qed
qed

lemma try_entry_total:
  "try_entry eng con verbose i e sentence r = Inr r1 \<Longrightarrow> total r1 = total r"
  "try_entry eng con verbose i e sentence r = Inl (ex, r1) \<Longrightarrow> total r1 = total r"
  by (auto simp: try_entry_def Let_def split: sum.splits if_splits)

lemma except_handler_total:
  "except_handler con verbose i sentence ex r1 = Inr r2 \<Longrightarrow> total r2 = total r1"
  by (auto simp: except_handler_def split: if_splits)

lemma run_loop_total:
  "run_loop eng con verbose i ds (r, c) = Inr (r', c') \<Longrightarrow> total r' = total r"
proof (induction ds arbitrary: i r c)
  case Nil
  then show ?case by simp
next
  case (Cons e ds)
  from Cons.prems show ?case
  proof (cases rule: run_loop_Cons_cases)
    case (skip sentence)
    from Cons.IH [OF skip(3)] show ?thesis by simp
  next
    case (normal sentence r1)
    from Cons.IH [OF normal(4)] try_entry_total(1) [OF normal(3)] show ?thesis by simp
  next
    case (caught sentence ex r1 r2)
    from Cons.IH [OF caught(5)] try_entry_total(2) [OF caught(3)]
      except_handler_total [OF caught(4)]
    show ?thesis by simp
  qed
qed

lemma run_loop_calls:
  "run_loop eng con verbose i ds (r, c) = Inr (r', c') \<Longrightarrow>
     c' = c @ map (\<lambda>e. the (map_of e (py ''input'')))
                (filter (\<lambda>e. \<not> dict_contains e (py ''error'')) ds)"
proof (induction ds arbitrary: i r c)
  case Nil
  then show ?case by simp
next
  case (Cons e ds)
  from Cons.prems show ?case
  proof (cases rule: run_loop_Cons_cases)
    case (skip sentence)
    from Cons.IH [OF skip(3)] skip(2) show ?thesis by simp
  next
    case (normal sentence r1)
    from Cons.IH [OF normal(4)] normal(2) dict_get_Inr [OF normal(1)] show ?thesis by simp
  next
    case (caught sentence ex r1 r2)
    from Cons.IH [OF caught(5)] caught(2) dict_get_Inr [OF caught(1)] show ?thesis by simp
  qed
qed

lemma exit_status_nonempty:
  assumes "golden \<noteq> []"
    and "run_tests eng con verbose (Some golden) = Inr (results, calls)"
  shows "main_test eng con verbose (Some golden)
       = Exit (if failed results = 0 \<and> errors results = 0 then 0 else 1)"
proof -
  from assms(2) have "run_loop eng con verbose 1 golden
      (\<lparr>total = int (length golden), passed = 0, failed = 0, errors = 0, failures = []\<rparr>, [])
      = Inr (results, calls)"
    by (simp add: run_tests_def load_golden_data_def)
  from run_loop_total [OF this] assms(1) have "total results \<noteq> 0" by simp
  then show ?thesis
    using assms(2) by (simp add: main_test_def print_test_summary_def)
qed

text \<open>The loop when no call of \<open>print\<close> raises: not verbose, or a console that accepts.\<close>

lemma try_entry_quiet:
  assumes "\<And>lines. prints con verbose lines"
  shows "try_entry eng con verbose i expected sentence results =
     (case try_compare eng expected sentence of
        Inl e \<Rightarrow> Inl (e, results)
      | Inr differences \<Rightarrow>
          Inr (if py_truthy differences
               then results\<lparr>failed := failed results + 1,
                       failures := failures results @ [Mismatch i sentence differences]\<rparr>
               else results\<lparr>passed := passed results + 1\<rparr>))"
  by (simp add: try_entry_def assms split: sum.splits)

lemma except_handler_quiet:
  assumes "\<And>lines. prints con verbose lines"
  shows "except_handler con verbose i sentence e results =
     Inr (results\<lparr>errors := errors results + 1,
                  failures := failures results @ [Errored i sentence e]\<rparr>)"
  by (simp add: except_handler_def assms)

lemma run_loop_quiet_Cons:
  assumes "\<And>lines. prints con verbose lines"
  shows "run_loop eng con verbose i (expected # rest) (results, calls) =
     (case dict_get expected (py ''input'') of
        Inl e \<Rightarrow> Inl e
      | Inr sentence \<Rightarrow>
          if dict_contains expected (py ''error'')
          then run_loop eng con verbose (i + 1) rest
                 (results\<lparr>errors := errors results + 1\<rparr>, calls)
          else
            (case try_compare eng expected sentence of
               Inr differences \<Rightarrow>
                 if py_truthy differences
                 then run_loop eng con verbose (i + 1) rest
                        (results\<lparr>failed := failed results + 1,
                                 failures := failures results @ [Mismatch i sentence differences]\<rparr>,
                         calls @ [sentence])
                 else run_loop eng con verbose (i + 1) rest
                        (results\<lparr>passed := passed results + 1\<rparr>, calls @ [sentence])
             | Inl e \<Rightarrow>
                 run_loop eng con verbose (i + 1) rest
                   (results\<lparr>errors := errors results + 1,
                            failures := failures results @ [Errored i sentence e]\<rparr>,
                    calls @ [sentence])))"
  by (simp add: try_entry_quiet [OF assms] except_handler_quiet [OF assms] assms
      split: sum.splits)

lemma run_loop_returns:
  assumes q: "\<And>lines. prints con verbose lines"
    and "\<forall>e \<in> set ds. dict_contains e (py ''input'')"
  shows "\<exists>st. run_loop eng con verbose i ds (r, c) = Inr st"
  using assms(2)
proof (induction ds arbitrary: i r c)
  case Nil
  then show ?case by simp
next
  case (Cons e ds)
  then have "dict_get e (py ''input'') = Inr (the (map_of e (py ''input'')))"
    by (simp add: dict_get_input)
  moreover have "\<And>i r c. \<exists>st. run_loop eng con verbose i ds (r, c) = Inr st"
    using Cons by simp
  ultimately show ?case
    by (simp add: run_loop_quiet_Cons [OF q] del: run_loop.simps(2) split: sum.splits)
qed

lemma run_loop_sum:
  assumes q: "\<And>lines. prints con verbose lines"
  shows "run_loop eng con verbose i ds (r, c) = Inr (r', c') \<Longrightarrow>
     passed r' + failed r' + errors r' = passed r + failed r + errors r + int (length ds)"
proof (induction ds arbitrary: i r c)
  case Nil
  then show ?case by simp
next
  case (Cons e ds)
  from Cons.prems show ?case
    by (auto simp: run_loop_quiet_Cons [OF q] simp del: run_loop.simps(2)
        split: sum.splits if_splits dest!: Cons.IH)
qed

lemma run_tests_counts_when_prints_succeed:
  assumes q: "\<And>lines. prints con verbose lines"
  shows "run_tests eng con verbose (Some golden) = Inr (results, calls) \<Longrightarrow>
      total results = int (length golden)
      \<and> total results = passed results + failed results + errors results"
    and "\<forall>e \<in> set golden. dict_contains e (py ''input'') \<Longrightarrow>
      \<exists>results calls. run_tests eng con verbose (Some golden) = Inr (results, calls)"
proof -
  let ?r0 = "\<lparr>total = int (length golden), passed = 0, failed = 0, errors = 0, failures = []\<rparr>"
  {
    assume "run_tests eng con verbose (Some golden) = Inr (results, calls)"
    then have run: "run_loop eng con verbose 1 golden (?r0, []) = Inr (results, calls)"
      by (simp add: run_tests_def load_golden_data_def)
    from run_loop_total [OF run] have t: "total results = int (length golden)" by simp
    from run_loop_sum [OF q run] t
    show "total results = int (length golden)
      \<and> total results = passed results + failed results + errors results"
      by simp
  }
  {
    assume "\<forall>e \<in> set golden. dict_contains e (py ''input'')"
    from run_loop_returns [OF q this, of eng 1 ?r0 "[]"]
    show "\<exists>results calls. run_tests eng con verbose (Some golden) = Inr (results, calls)"
      by (auto simp: run_tests_def load_golden_data_def)
  }
qed

lemma run_tests_never_transcribes_error_entries:
  assumes "run_tests eng con verbose (Some golden) = Inr (results, calls)"
  shows "calls = map (\<lambda>e. the (map_of e (py ''input'')))
                   (filter (\<lambda>e. \<not> dict_contains e (py ''error'')) golden)"
proof -
  from assms have "run_loop eng con verbose 1 golden
      (\<lparr>total = int (length golden), passed = 0, failed = 0, errors = 0, failures = []\<rparr>, [])
      = Inr (results, calls)"
    by (simp add: run_tests_def load_golden_data_def)
  from run_loop_calls [OF this] show ?thesis by simp
qed

section \<open>The claim about the counts of a test run\<close>

text \<open>
  C3. The counts are meant to satisfy \<open>total = passed + failed + errors\<close>, each entry
  adding to one of the three. They do when no call of \<open>print\<close> raises
  (\<open>run_tests_counts_when_prints_succeed\<close>). Under \<open>verbose\<close> the lines for an entry
  are printed inside the \<open>try\<close> block, after the entry has been counted: for a dataset
  of one entry whose comparison finds a difference, and a console that cannot print the
  differences, the entry is counted as failed, then the exception of \<open>print\<close> is caught
  by the clause that counts errors. The run returns a summary with \<open>total = 1\<close>,
  \<open>failed = 1\<close>, \<open>errors = 1\<close> and two failure records for the one entry.
\<close>

theorem run_tests_counts_entry_twice_when_print_raises:
  "\<exists>results calls.
     run_tests
       (\<lambda>v. Inr \<lparr>phonology = \<lparr>words = [py ''a''], syllables = [py ''a'']\<rparr>,
                  phonetics = \<lparr>words = [py ''a''], syllables = [py ''a'']\<rparr>,
                  sampa = \<lparr>words = [py ''a''], syllables = [py ''a'']\<rparr>\<rparr>)
       (\<lambda>l. \<not> is_DiffLines l) True
       (Some
         [[(py ''input'', PStr (py ''tres'')),
           (py ''phonology'', section_dict \<lparr>words = [py ''a''], syllables = [py ''a'']\<rparr>),
           (py ''phonetics'', section_dict \<lparr>words = [py ''a''], syllables = [py ''a'']\<rparr>),
           (py ''sampa'', section_dict \<lparr>words = [py ''b''], syllables = [py ''a'']\<rparr>)]])
       = Inr (results, calls)
     \<and> results =
         \<lparr>total = 1, passed = 0, failed = 1, errors = 1,
          failures =
            [Mismatch 1 (PStr (py ''tres''))
               (PDict [(py ''sampa'', PDict [(py ''words'',
                  PDict [(py ''expected'', PList [PStr (py ''b'')]),
                         (py ''actual'', PList [PStr (py ''a'')])])])]),
             Errored 1 (PStr (py ''tres'')) PrintError]\<rparr>
     \<and> calls = [PStr (py ''tres'')]
     \<and> total results \<noteq> passed results + failed results + errors results"
  by (simp add: run_tests_def load_golden_data_def try_entry_def except_handler_def prints_def
      try_compare_def transcribe_sentence_def compare_results_def section_dict_def
      subscript2_def dict_get_def dict_contains_def)

section \<open>Facts about the round trip\<close>









section \<open>The claim about the round trip\<close>



end
